theory Spec2Isabelle
  imports Complex_Main "HOL-Library.AList" "HOL-Library.Word"
begin

section \<open>Python values\<close>

text \<open>
  The values that flow through the two modules are JSON documents: what \<^verbatim>\<open>json.loads\<close>
  returns and what \<^verbatim>\<open>send_json\<close> and \<^verbatim>\<open>json.dumps\<close> accept. A Python \<^verbatim>\<open>dict\<close> is an
  association list read with \<open>map_of\<close> and written with \<open>AList.update\<close>, which keeps the
  insertion order of the keys as Python does. A Python \<^verbatim>\<open>str\<close> is modelled by its UTF-8
  encoding, one \<open>char\<close> per byte, so that text in any script is a \<open>string\<close>.
\<close>

datatype json =
    JNull
  | JBool bool
  | JInt int
  | JFloat real
  | JStr string
  | JArr "json list"
  | JObj "(string \<times> json) list"

type_synonym dict = "(string \<times> json) list"

text \<open>
  The exceptions of class \<^verbatim>\<open>Exception\<close> that the modelled statements can raise.
  \<open>TimeoutException\<close> stands for \<^verbatim>\<open>httpx.TimeoutException\<close> and its subclasses,
  \<open>OtherException\<close> for any other exception of the transport, named by a label.
\<close>

datatype exc =
    TimeoutException
  | JSONDecodeError
  | AttributeError
  | TypeError
  | KeyError
  | IndexError
  | OtherException string

text \<open>
  Library functions whose results the code only passes on are parameters of the model:
  \<open>loads\<close> is \<^verbatim>\<open>json.loads\<close> on a \<^verbatim>\<open>str\<close> (\<open>None\<close> when it raises
  \<^verbatim>\<open>JSONDecodeError\<close>), \<open>str_exc\<close> is \<^verbatim>\<open>str(e)\<close> on an exception and \<open>py_str\<close> is the
  text an f-string puts for a value.
\<close>

record runtime =
  loads :: "string \<Rightarrow> json option"
  str_exc :: "exc \<Rightarrow> string"
  py_str :: "json \<Rightarrow> string"

text \<open>Truth value of a Python object in \<^verbatim>\<open>if x\<close> and \<^verbatim>\<open>not x\<close>.\<close>

fun truthy :: "json \<Rightarrow> bool" where
  "truthy JNull = False"
| "truthy (JBool b) = b"
| "truthy (JInt n) = (n \<noteq> 0)"
| "truthy (JFloat r) = (r \<noteq> 0)"
| "truthy (JStr s) = (s \<noteq> [])"
| "truthy (JArr xs) = (xs \<noteq> [])"
| "truthy (JObj d) = (d \<noteq> [])"

text \<open>\<^verbatim>\<open>d.get(k, default)\<close> on a dict.\<close>

definition dict_get :: "dict \<Rightarrow> string \<Rightarrow> json \<Rightarrow> json" where
  "dict_get d k dflt = (case map_of d k of None \<Rightarrow> dflt | Some v \<Rightarrow> v)"

text \<open>
  \<^verbatim>\<open>x.get(k, default)\<close> on any decoded value: only a dict has the method, every other
  value raises \<^verbatim>\<open>AttributeError\<close>.
\<close>

fun py_get :: "json \<Rightarrow> string \<Rightarrow> json \<Rightarrow> exc + json" where
  "py_get (JObj d) k dflt = Inr (dict_get d k dflt)"
| "py_get _ k dflt = Inl AttributeError"

text \<open>Number of bytes of the UTF-8 character that starts with the given byte.\<close>

definition utf8_len :: "char \<Rightarrow> nat" where
  "utf8_len c =
     (if of_char c < (0x80::nat) then 1
      else if of_char c < (0xE0::nat) then 2
      else if of_char c < (0xF0::nat) then 3
      else 4)"

text \<open>
  \<^verbatim>\<open>x[0]\<close>: the first element of a list, the first character of a string; a dict decoded
  from JSON has string keys only, so the key \<^verbatim>\<open>0\<close> is missing; other values are not
  subscriptable.
\<close>

fun py_first :: "json \<Rightarrow> exc + json" where
  "py_first (JArr []) = Inl IndexError"
| "py_first (JArr (x # xs)) = Inr x"
| "py_first (JStr []) = Inl IndexError"
| "py_first (JStr (c # cs)) = Inr (JStr (take (utf8_len c) (c # cs)))"
| "py_first (JObj d) = Inl KeyError"
| "py_first _ = Inl TypeError"

text \<open>
  \<^verbatim>\<open>x[:50]\<close> inside a log line: the value is dropped, only the exception matters. Strings
  and lists can be sliced; a number, a boolean and \<^verbatim>\<open>None\<close> raise \<^verbatim>\<open>TypeError\<close>, and so
  does a dict (\<^verbatim>\<open>KeyError\<close> from Python 3.12 on).
\<close>

fun py_slice :: "json \<Rightarrow> exc option" where
  "py_slice (JStr s) = None"
| "py_slice (JArr xs) = None"
| "py_slice _ = Some TypeError"

text \<open>\<^verbatim>\<open>"sep".join(xs)\<close>.\<close>

fun join :: "string \<Rightarrow> string list \<Rightarrow> string" where
  "join sep [] = []"
| "join sep [x] = x"
| "join sep (x # y # ys) = x @ sep @ join sep (y # ys)"

definition nl :: string where
  "nl = [CHR 0x0A]"

text \<open>Decimal text of an integer, as an f-string prints a status code.\<close>

fun str_nat :: "nat \<Rightarrow> string" where
  "str_nat n =
     (if n < 10 then [''0123456789'' ! n]
      else str_nat (n div 10) @ [''0123456789'' ! (n mod 10)])"

declare str_nat.simps [simp del]

definition str_int :: "int \<Rightarrow> string" where
  "str_int i = (if i < 0 then ''-'' @ str_nat (nat (- i)) else str_nat (nat i))"

section \<open>gemini_service.py\<close>

datatype ProcessingMode = STRICT | BALANCED

definition GEMINI_API_URL :: string where
  "GEMINI_API_URL =
     ''https://generativelanguage.googleapis.com/v1beta/models/gemini-2.0-flash:generateContent''"

definition STRICT_SYSTEM_PROMPT :: string where
  \<open>STRICT_SYSTEM_PROMPT = join nl
    [''You are a transcription cleaner and prompt composer. Your job is to:'',
     ''1. Clean speech transcriptions while STRICTLY preserving meaning'',
     ''2. Translate Tamil/Hindi/Tunglish to English without losing ANY nuance'',
     ''3. Convert the cleaned text into a structured prompt format'',
     '''',
     ''STRICT RULES - NEVER VIOLATE:'',
     ''- NEVER change numbers (42 stays 42, not "forty-two" or "around forty")'',
     ''- NEVER change URLs, file paths, or code tokens'',
     ''- NEVER change proper nouns, names, or technical terms'',
     ''- NEVER add information that wasn't in the original'',
     ''- NEVER remove information that was clearly intentional'',
     ''- Only remove: "um", "uh", "like", "you know", hesitations, false starts, repetitions'',
     '''',
     ''For Tunglish (Tamil-English mix): Translate the Tamil parts to English while keeping English parts intact.'',
     ''For pure Tamil/Hindi: Translate to natural English while preserving the exact meaning.'',
     '''',
     ''If translation is ambiguous, set meaning_change_risk to "high" and provide the most literal interpretation.'',
     '''',
     ''IMPORTANT: Respond ONLY with valid JSON matching the schema provided. No markdown, no extra text.'']\<close>

definition BALANCED_SYSTEM_PROMPT :: string where
  \<open>BALANCED_SYSTEM_PROMPT = join nl
    [''You are a transcription cleaner and prompt composer. Your job is to:'',
     ''1. Clean speech transcriptions while preserving core meaning'',
     ''2. Translate Tamil/Hindi/Tunglish to clear, natural English'',
     ''3. Convert the cleaned text into a well-structured prompt format'',
     '''',
     ''RULES:'',
     ''- NEVER change numbers, URLs, file paths, code tokens, proper nouns'',
     ''- Remove fillers, hesitations, false starts, repetitions'',
     ''- Improve clarity and structure while keeping the intent'',
     ''- For prompts: add appropriate structure (bullet points, sections) if it improves clarity'',
     '''',
     ''For Tunglish (Tamil-English mix): Translate naturally, combining Tamil and English parts into fluent English.'',
     ''For pure Tamil/Hindi: Translate to natural, idiomatic English.'',
     '''',
     ''Balance natural expression with faithfulness to the original intent.'',
     '''',
     ''IMPORTANT: Respond ONLY with valid JSON matching the schema provided. No markdown, no extra text.'']\<close>

definition get_json_schema :: json where
  "get_json_schema = JObj
    [(''type'', JStr ''object''),
     (''properties'', JObj
       [(''detected_languages'', JObj
          [(''type'', JStr ''array''),
           (''items'', JObj [(''type'', JStr ''string'')]),
           (''description'', JStr ''Languages detected in input (english, tamil, hindi, tunglish)'')]),
        (''raw_transcript'', JObj
          [(''type'', JStr ''string''),
           (''description'', JStr ''Original transcript exactly as provided'')]),
        (''cleaned_english_meaning'', JObj
          [(''type'', JStr ''string''),
           (''description'', JStr ''Cleaned English preserving exact meaning with minimal edits'')]),
        (''prompt_ready_english'', JObj
          [(''type'', JStr ''string''),
           (''description'', JStr ''Structured English formatted for LLM prompt use'')]),
        (''removed_fillers'', JObj
          [(''type'', JStr ''boolean''),
           (''description'', JStr ''Whether filler words were removed'')]),
        (''meaning_change_risk'', JObj
          [(''type'', JStr ''string''),
           (''enum'', JArr [JStr ''low'', JStr ''medium'', JStr ''high'']),
           (''description'', JStr ''Risk that cleaning altered the intended meaning'')]),
        (''entities'', JObj
          [(''type'', JStr ''array''),
           (''items'', JObj
             [(''type'', JStr ''object''),
              (''properties'', JObj
                [(''text'', JObj [(''type'', JStr ''string'')]),
                 (''type'', JObj [(''type'', JStr ''string'')])]),
              (''required'', JArr [JStr ''text'', JStr ''type''])]),
           (''description'', JStr ''Key entities (names, numbers, URLs, code) that must not be changed'')]),
        (''confidence_score'', JObj
          [(''type'', JStr ''number''),
           (''description'', JStr ''Confidence in translation/cleanup accuracy (0-1)'')])]),
     (''required'', JArr
       [JStr ''detected_languages'',
        JStr ''raw_transcript'',
        JStr ''cleaned_english_meaning'',
        JStr ''prompt_ready_english'',
        JStr ''meaning_change_risk'',
        JStr ''entities'',
        JStr ''confidence_score''])]"

text \<open>\<^verbatim>\<open>create_fallback_response(raw_transcript, error)\<close>.\<close>

definition create_fallback_response :: "string \<Rightarrow> string \<Rightarrow> dict" where
  "create_fallback_response raw_transcript error =
    [(''error'', JStr error),
     (''detected_languages'', JArr [JStr ''unknown'']),
     (''raw_transcript'', JStr raw_transcript),
     (''cleaned_english_meaning'', JStr raw_transcript),
     (''prompt_ready_english'', JStr raw_transcript),
     (''removed_fillers'', JBool False),
     (''meaning_change_risk'', JStr ''high''),
     (''entities'', JArr []),
     (''confidence_score'', JFloat 0)]"

text \<open>
  The HTTP response as the code reads it: \<^verbatim>\<open>response.status_code\<close> and the outcome of
  \<^verbatim>\<open>response.json()\<close>, which raises when the body is not JSON. The service is a function
  from the request (URL and payload) to the outcome of \<^verbatim>\<open>client.post\<close>: an exception
  (a timeout or a transport error) or a response. \<open>gemini_api\<close> is the value of the
  environment variable read at each call.
\<close>

record response =
  status_code :: int
  json_body :: "exc + json"

record gemini_env =
  gemini_api :: "string option"
  post :: "string \<Rightarrow> json \<Rightarrow> exc + response"

text \<open>
  The U+2192 arrow of the f-string that prints a previous turn, in UTF-8.
\<close>

definition arrow :: string where
  "arrow = [CHR 0xE2, CHR 0x86, CHR 0x92]"

text \<open>The user prompt, lines 197 to 209: the transcript, then the optional context, then
  the last three previous turns, each step putting its text in front.\<close>

definition previous_line :: "runtime \<Rightarrow> dict \<Rightarrow> string" where
  "previous_line rt t =
     ''Previous: '' @ py_str rt (dict_get t ''raw'' (JStr [])) @ '' '' @ arrow @ '' ''
       @ py_str rt (dict_get t ''cleaned'' (JStr []))"

definition user_prompt :: "runtime \<Rightarrow> string \<Rightarrow> string option \<Rightarrow> dict list option \<Rightarrow> string" where
  "user_prompt rt raw_transcript context previous_turns =
    (let p0 = ''Process this transcript and return JSON:'' @ nl @ nl @ raw_transcript;
         p1 = (case context of
                 None \<Rightarrow> p0
               | Some c \<Rightarrow> if c = [] then p0 else ''Session context: '' @ c @ nl @ nl @ p0)
     in case previous_turns of
          None \<Rightarrow> p1
        | Some ts \<Rightarrow>
            if ts = [] then p1
            else ''Previous utterances:'' @ nl
                   @ join nl (map (previous_line rt) (drop (length ts - 3) ts)) @ nl @ nl @ p1)"

text \<open>The system prompt chosen at line 194 and the request payload of lines 212 to 229.\<close>

definition system_prompt :: "ProcessingMode \<Rightarrow> string" where
  "system_prompt mode = (if mode = STRICT then STRICT_SYSTEM_PROMPT else BALANCED_SYSTEM_PROMPT)"

definition request_payload :: "string \<Rightarrow> string \<Rightarrow> json" where
  "request_payload sys_prompt usr_prompt = JObj
    [(''contents'', JArr
       [JObj [(''parts'', JArr
          [JObj [(''text'', JStr sys_prompt)],
           JObj [(''text'', JStr usr_prompt)]])]]),
     (''generationConfig'', JObj
       [(''temperature'', JFloat 0.2),
        (''topP'', JFloat 0.8),
        (''topK'', JInt 40),
        (''maxOutputTokens'', JInt 2048),
        (''responseMimeType'', JStr ''application/json''),
        (''responseSchema'', get_json_schema)])]"

text \<open>
  Lines 257 to 267: the text of the first part is decoded. A decoding error gives the
  fallback; the decoded value gets the key \<^verbatim>\<open>raw_transcript\<close> assigned, which only a dict
  supports, and the log line slices its \<^verbatim>\<open>cleaned_english_meaning\<close>. \<^verbatim>\<open>json.loads\<close> on
  a value that is not a string raises \<^verbatim>\<open>TypeError\<close>. None of these is a
  \<^verbatim>\<open>JSONDecodeError\<close>, so they leave the inner \<^verbatim>\<open>try\<close>.
\<close>

definition parse_output :: "runtime \<Rightarrow> string \<Rightarrow> json \<Rightarrow> exc + dict" where
  "parse_output rt raw_transcript text =
    (case text of
       JStr s \<Rightarrow>
         (case loads rt s of
            None \<Rightarrow> Inr (create_fallback_response raw_transcript ''Invalid JSON from Gemini'')
          | Some (JObj d) \<Rightarrow>
              (let output = AList.update ''raw_transcript'' (JStr raw_transcript) d
               in case py_slice (dict_get output ''cleaned_english_meaning'' (JStr [])) of
                    Some e \<Rightarrow> Inl e
                  | None \<Rightarrow> Inr output)
          | Some _ \<Rightarrow> Inl TypeError)
     | _ \<Rightarrow> Inl TypeError)"

text \<open>Lines 239 to 267: what the code does with the response of the service.\<close>

definition read_response :: "runtime \<Rightarrow> string \<Rightarrow> response \<Rightarrow> exc + dict" where
  "read_response rt raw_transcript resp =
    (if status_code resp \<noteq> 200
     then Inr (create_fallback_response raw_transcript
                 (''API error: '' @ str_int (status_code resp)))
     else case json_body resp of
       Inl e \<Rightarrow> Inl e
     | Inr result \<Rightarrow>
        (case py_get result ''candidates'' (JArr []) of
           Inl e \<Rightarrow> Inl e
         | Inr candidates \<Rightarrow>
            if \<not> truthy candidates
            then Inr (create_fallback_response raw_transcript ''No response from Gemini'')
            else (case py_first candidates of
               Inl e \<Rightarrow> Inl e
             | Inr c0 \<Rightarrow>
                (case py_get c0 ''content'' (JObj []) of
                   Inl e \<Rightarrow> Inl e
                 | Inr content \<Rightarrow>
                    (case py_get content ''parts'' (JArr []) of
                       Inl e \<Rightarrow> Inl e
                     | Inr parts \<Rightarrow>
                        if \<not> truthy parts
                        then Inr (create_fallback_response raw_transcript
                                    ''Empty response from Gemini'')
                        else (case py_first parts of
                           Inl e \<Rightarrow> Inl e
                         | Inr p0 \<Rightarrow>
                            (case py_get p0 ''text'' (JStr []) of
                               Inl e \<Rightarrow> Inl e
                             | Inr text \<Rightarrow> parse_output rt raw_transcript text)))))))"

text \<open>The body of the outer \<^verbatim>\<open>try\<close>, lines 232 to 267: the request, then the response.\<close>

definition call_service ::
  "runtime \<Rightarrow> gemini_env \<Rightarrow> string \<Rightarrow> string \<Rightarrow> json \<Rightarrow> exc + dict" where
  "call_service rt env api_key raw_transcript payload =
    (case post env (GEMINI_API_URL @ ''?key='' @ api_key) payload of
       Inl e \<Rightarrow> Inl e
     | Inr resp \<Rightarrow> read_response rt raw_transcript resp)"

text \<open>The dict of lines 182 to 191, returned when the credential is missing.\<close>

definition key_missing_response :: "string \<Rightarrow> dict" where
  "key_missing_response raw_transcript =
     [(''error'', JStr ''Gemini API key not configured''),
      (''raw_transcript'', JStr raw_transcript),
      (''cleaned_english_meaning'', JStr raw_transcript),
      (''prompt_ready_english'', JStr raw_transcript),
      (''detected_languages'', JArr [JStr ''unknown'']),
      (''meaning_change_risk'', JStr ''high''),
      (''entities'', JArr []),
      (''confidence_score'', JFloat 0)]"

text \<open>
  \<^verbatim>\<open>process_transcript(raw_transcript, mode, context, previous_turns)\<close>. The result is
  \<open>Inl e\<close> when the call raises \<open>e\<close> and \<open>Inr d\<close> when it returns the dict \<open>d\<close>. The
  credential is missing when the variable is unset or empty. The two handlers of the
  outer \<^verbatim>\<open>try\<close> turn a timeout and every other exception into a fallback.
\<close>

definition process_transcript ::
  "runtime \<Rightarrow> gemini_env \<Rightarrow> string \<Rightarrow> ProcessingMode \<Rightarrow> string option \<Rightarrow> dict list option
     \<Rightarrow> exc + dict" where
  "process_transcript rt env raw_transcript mode context previous_turns =
    (case gemini_api env of
       None \<Rightarrow> Inr (key_missing_response raw_transcript)
     | Some api_key \<Rightarrow>
         if api_key = [] then Inr (key_missing_response raw_transcript)
         else
           (case call_service rt env api_key raw_transcript
                   (request_payload (system_prompt mode)
                      (user_prompt rt raw_transcript context previous_turns)) of
              Inr d \<Rightarrow> Inr d
            | Inl TimeoutException \<Rightarrow>
                Inr (create_fallback_response raw_transcript ''API timeout'')
            | Inl e \<Rightarrow> Inr (create_fallback_response raw_transcript (str_exc rt e))))"

section \<open>main.py\<close>

subsection \<open>Library functions of the session\<close>

text \<open>
  \<^verbatim>\<open>str.strip()\<close> removes the characters Python counts as whitespace from both ends:
  U+0009 to U+000D, U+001C to U+0020, U+0085, U+00A0, U+1680, U+2000 to U+200A, U+2028,
  U+2029, U+202F, U+205F and U+3000, here in UTF-8.
\<close>

definition whitespace :: "string list" where
  "whitespace =
    [[CHR 0x09], [CHR 0x0A], [CHR 0x0B], [CHR 0x0C], [CHR 0x0D],
     [CHR 0x1C], [CHR 0x1D], [CHR 0x1E], [CHR 0x1F], [CHR 0x20],
     [CHR 0xC2, CHR 0x85], [CHR 0xC2, CHR 0xA0],
     [CHR 0xE1, CHR 0x9A, CHR 0x80],
     [CHR 0xE2, CHR 0x80, CHR 0x80], [CHR 0xE2, CHR 0x80, CHR 0x81],
     [CHR 0xE2, CHR 0x80, CHR 0x82], [CHR 0xE2, CHR 0x80, CHR 0x83],
     [CHR 0xE2, CHR 0x80, CHR 0x84], [CHR 0xE2, CHR 0x80, CHR 0x85],
     [CHR 0xE2, CHR 0x80, CHR 0x86], [CHR 0xE2, CHR 0x80, CHR 0x87],
     [CHR 0xE2, CHR 0x80, CHR 0x88], [CHR 0xE2, CHR 0x80, CHR 0x89],
     [CHR 0xE2, CHR 0x80, CHR 0x8A],
     [CHR 0xE2, CHR 0x80, CHR 0xA8], [CHR 0xE2, CHR 0x80, CHR 0xA9],
     [CHR 0xE2, CHR 0x80, CHR 0xAF],
     [CHR 0xE2, CHR 0x81, CHR 0x9F],
     [CHR 0xE3, CHR 0x80, CHR 0x80]]"

text \<open>Removing from the front every leading occurrence of one of the given sequences.\<close>

function strip_left :: "string list \<Rightarrow> string \<Rightarrow> string" where
  "strip_left ws s =
     (case find (\<lambda>w. w \<noteq> [] \<and> take (length w) s = w) ws of
        None \<Rightarrow> s
      | Some w \<Rightarrow> strip_left ws (drop (length w) s))"
  by pat_completeness auto
termination
proof (relation "measure (\<lambda>(ws, s). length s)")
  show "wf (measure (\<lambda>(ws, s). length s))"
    by simp
next
  fix ws :: "string list" and s w :: string
  assume "find (\<lambda>w. w \<noteq> [] \<and> take (length w) s = w) ws = Some w"
  then have w: "w \<noteq> []" "take (length w) s = w"
    by (auto simp: find_Some_iff)
  then have "s \<noteq> []"
    by auto
  with w show "((ws, drop (length w) s), (ws, s)) \<in> measure (\<lambda>(ws, s). length s)"
    by simp
qed

declare strip_left.simps [simp del]

definition py_strip :: "string \<Rightarrow> string" where
  "py_strip s = rev (strip_left (map rev whitespace) (rev (strip_left whitespace s)))"

text \<open>\<^verbatim>\<open>sub in s\<close> on strings: \<open>sub\<close> occurs in \<open>s\<close>.\<close>

fun occurs_in :: "string \<Rightarrow> string \<Rightarrow> bool" where
  "occurs_in sub [] = (sub = [])"
| "occurs_in sub (c # cs) = (take (length sub) (c # cs) = sub \<or> occurs_in sub cs)"

text \<open>
  \<^verbatim>\<open>"error" in x\<close> on a decoded value: a substring test on a string, membership in a
  list, a key test on a dict; a number, a boolean and \<^verbatim>\<open>None\<close> are not iterable.
\<close>

fun error_in :: "json \<Rightarrow> exc + bool" where
  "error_in (JStr s) = Inr (occurs_in ''error'' s)"
| "error_in (JArr xs) = Inr (JStr ''error'' \<in> set xs)"
| "error_in (JObj d) = Inr (map_of d ''error'' \<noteq> None)"
| "error_in _ = Inl TypeError"

text \<open>
  \<^verbatim>\<open>base64.b64encode(audio_data).decode('utf-8')\<close>: the standard alphabet of RFC 4648
  with padding, three bytes to four characters.
\<close>

type_synonym byte = "8 word"

definition b64_char :: "nat \<Rightarrow> char" where
  "b64_char n =
     ''ABCDEFGHIJKLMNOPQRSTUVWXYZabcdefghijklmnopqrstuvwxyz0123456789+/'' ! (n mod 64)"

fun b64encode :: "byte list \<Rightarrow> string" where
  "b64encode [] = []"
| "b64encode [a] =
     (let n = unat a * 65536
      in [b64_char (n div 262144), b64_char (n div 4096), CHR ''='', CHR ''=''])"
| "b64encode [a, b] =
     (let n = unat a * 65536 + unat b * 256
      in [b64_char (n div 262144), b64_char (n div 4096), b64_char (n div 64), CHR ''=''])"
| "b64encode (a # b # c # rest) =
     (let n = unat a * 65536 + unat b * 256 + unat c
      in [b64_char (n div 262144), b64_char (n div 4096), b64_char (n div 64), b64_char n])
       @ b64encode rest"

subsection \<open>The state of one session\<close>

text \<open>
  What a session does to its two peers is recorded in order: each call of
  \<^verbatim>\<open>websocket.send_json\<close> with the message and whether the call returned (\<open>True\<close>) or
  raised, \<^verbatim>\<open>websocket.close\<close>, the connection attempt to the provider, each call of
  \<^verbatim>\<open>elevenlabs_ws.send\<close> with the message given to \<^verbatim>\<open>json.dumps\<close> and whether it
  returned, each \<^verbatim>\<open>asyncio.create_task(process_with_gemini(text))\<close> with its text, and
  \<^verbatim>\<open>elevenlabs_ws.close\<close>.
\<close>

datatype action =
    ClientSend json bool
  | ClientClose
  | ProviderConnect
  | ProviderSend json bool
  | CreateTask string
  | ProviderClose

text \<open>The variables of \<^verbatim>\<open>websocket_transcribe\<close> that its nested functions share.\<close>

record session =
  should_stop :: bool
  client_connected :: bool
  current_mode :: ProcessingMode
  accumulated_transcript :: string
  trace :: "action list"

text \<open>Lines 63 to 66, after the actions done so far.\<close>

definition initial_session :: "action list \<Rightarrow> session" where
  "initial_session done_so_far =
     \<lparr>should_stop = False, client_connected = True, current_mode = BALANCED,
      accumulated_transcript = [], trace = done_so_far\<rparr>"

text \<open>
  \<^verbatim>\<open>safe_send(data)\<close>. The boolean \<open>delivered\<close> is the outcome of the transport for this
  call, should the call reach it: \<^verbatim>\<open>send_json\<close> returns or raises.
\<close>

definition safe_send :: "session \<Rightarrow> bool \<Rightarrow> json \<Rightarrow> bool \<times> session" where
  "safe_send s delivered data =
     (if \<not> client_connected s then (False, s)
      else if delivered then (True, s\<lparr>trace := trace s @ [ClientSend data True]\<rparr>)
      else (False, s\<lparr>client_connected := False, trace := trace s @ [ClientSend data False]\<rparr>))"

subsection \<open>The enrichment task\<close>

text \<open>
  \<^verbatim>\<open>process_with_gemini(transcript)\<close>, with the outcomes of its two sends. The task runs
  here in one piece; the mode it passes on is the one in effect when it calls
  \<^verbatim>\<open>process_transcript\<close>.
\<close>

definition gemini_result_message :: "dict \<Rightarrow> string \<Rightarrow> json" where
  "gemini_result_message result transcript = JObj
    [(''type'', JStr ''gemini_result''),
     (''raw_transcript'', dict_get result ''raw_transcript'' (JStr transcript)),
     (''cleaned_meaning'', dict_get result ''cleaned_english_meaning'' (JStr transcript)),
     (''prompt_ready'', dict_get result ''prompt_ready_english'' (JStr transcript)),
     (''detected_languages'', dict_get result ''detected_languages'' (JArr [])),
     (''risk_level'', dict_get result ''meaning_change_risk'' (JStr ''unknown'')),
     (''entities'', dict_get result ''entities'' (JArr [])),
     (''confidence'', dict_get result ''confidence_score'' (JInt 0)),
     (''error'', dict_get result ''error'' JNull)]"

definition process_with_gemini ::
  "runtime \<Rightarrow> gemini_env \<Rightarrow> session \<Rightarrow> string \<Rightarrow> bool \<Rightarrow> bool \<Rightarrow> session" where
  "process_with_gemini rt env s transcript delivered1 delivered2 =
    (if py_strip transcript = [] \<or> \<not> client_connected s then s
     else
       (let s1 = snd (safe_send s delivered1
                   (JObj [(''type'', JStr ''processing''),
                          (''message'', JStr ''Processing with Gemini...'')]))
        in case process_transcript rt env transcript (current_mode s1) None None of
             Inl e \<Rightarrow> s1
           | Inr result \<Rightarrow>
               snd (safe_send s1 delivered2 (gemini_result_message result transcript))))"

subsection \<open>The provider loop\<close>

text \<open>
  What one pass through a loop body decides: the loop goes on to its next message, or it
  is left, by \<^verbatim>\<open>break\<close> or by an exception that the handler around the loop catches.
\<close>

datatype flow = Continue | Leave

text \<open>
  Lines 174 to 179, what the provider loop does with the text of a final transcript once
  the relay of the transcript has returned: the text is appended to the accumulated
  transcript, and a task is created if the client is marked connected at that moment.
\<close>

definition accumulate_and_dispatch :: "session \<Rightarrow> string \<Rightarrow> session" where
  "accumulate_and_dispatch s1 text =
     (let s2 = s1\<lparr>accumulated_transcript := accumulated_transcript s1 @ '' '' @ text\<rparr>
      in if client_connected s2
         then s2\<lparr>trace := trace s2 @ [CreateTask text]\<rparr>
         else s2)"

text \<open>
  The body of the \<^verbatim>\<open>async for\<close> of \<^verbatim>\<open>receive_from_elevenlabs\<close> for one message of the
  provider, lines 140 to 188, with the outcome of the send it may do. A message that is
  not JSON is skipped. A message that decodes to anything but a dict raises
  \<^verbatim>\<open>AttributeError\<close> at \<^verbatim>\<open>data.get\<close>, and so does the \<^verbatim>\<open>strip\<close> of a text that is not a
  string; these leave the loop through \<^verbatim>\<open>except Exception\<close>.
\<close>

definition receive_from_elevenlabs_body ::
  "runtime \<Rightarrow> session \<Rightarrow> string \<times> bool \<Rightarrow> flow \<times> session" where
  "receive_from_elevenlabs_body rt s m =
    (let message = fst m; delivered = snd m in
     if should_stop s \<or> \<not> client_connected s then (Leave, s)
     else case loads rt message of
       None \<Rightarrow> (Continue, s)
     | Some (JObj data) \<Rightarrow>
        (let msg_type = dict_get data ''message_type'' (JStr []) in
         if msg_type = JStr ''session_started''
         then (Continue, snd (safe_send s delivered
                 (JObj [(''type'', JStr ''session_started''),
                        (''session_id'', dict_get data ''session_id'' JNull)])))
         else if msg_type = JStr ''partial_transcript''
         then (let text = dict_get data ''text'' (JStr []) in
               if truthy text
               then (Continue, snd (safe_send s delivered
                       (JObj [(''type'', JStr ''transcript''),
                              (''text'', text),
                              (''is_final'', JBool False)])))
               else (Continue, s))
         else if msg_type = JStr ''committed_transcript''
                 \<or> msg_type = JStr ''committed_transcript_with_timestamps''
         then (case dict_get data ''text'' (JStr []) of
                 JStr t \<Rightarrow>
                  (let text = py_strip t in
                   if text \<noteq> []
                   then
                     (let s1 = snd (safe_send s delivered
                                 (JObj [(''type'', JStr ''transcript''),
                                        (''text'', JStr text),
                                        (''is_final'', JBool True),
                                        (''language'',
                                           dict_get data ''language_code'' (JStr ''en''))]))
                      in (Continue, accumulate_and_dispatch s1 text))
                   else (Continue, s))
               | _ \<Rightarrow> (Leave, s))
         else (case error_in msg_type of
                 Inl e \<Rightarrow> (Leave, s)
               | Inr True \<Rightarrow>
                   (Continue, snd (safe_send s delivered
                      (JObj [(''type'', JStr ''error''),
                             (''message'', dict_get data ''error'' (JStr ''Unknown error''))])))
               | Inr False \<Rightarrow> (Continue, s)))
     | Some _ \<Rightarrow> (Leave, s))"

text \<open>
  \<^verbatim>\<open>receive_from_elevenlabs\<close> on the messages the provider sends until its connection
  closes, each with the outcome of the send it may cause.
\<close>

fun receive_from_elevenlabs :: "runtime \<Rightarrow> session \<Rightarrow> (string \<times> bool) list \<Rightarrow> session" where
  "receive_from_elevenlabs rt s [] = s"
| "receive_from_elevenlabs rt s (m # ms) =
     (case receive_from_elevenlabs_body rt s m of
        (Continue, s') \<Rightarrow> receive_from_elevenlabs rt s' ms
      | (Leave, s') \<Rightarrow> s')"

subsection \<open>The client loop\<close>

text \<open>
  What \<^verbatim>\<open>websocket.receive()\<close> gives within its 30 seconds: nothing, an exception, or a
  message of the server, which carries a disconnect, the key \<^verbatim>\<open>bytes\<close>, the key
  \<^verbatim>\<open>text\<close>, or none of them. The server of this program (uvicorn) puts exactly one of
  the two keys into a message.
\<close>

datatype frame = Disconnect | Bytes "byte list" | Text string | Other

datatype received = Timeout | Received frame | ReceiveRaises

text \<open>
  \<^verbatim>\<open>await elevenlabs_ws.send(json.dumps(msg))\<close> inside the client loop: when the call
  raises, the handlers of lines 257 to 264 mark the client gone and stop the session.
\<close>

definition elevenlabs_send :: "session \<Rightarrow> bool \<Rightarrow> json \<Rightarrow> flow \<times> session" where
  "elevenlabs_send s sent msg =
     (if sent then (Continue, s\<lparr>trace := trace s @ [ProviderSend msg True]\<rparr>)
      else (Leave, s\<lparr>client_connected := False, should_stop := True,
                     trace := trace s @ [ProviderSend msg False]\<rparr>))"

definition chunk_message :: "byte list \<Rightarrow> json" where
  "chunk_message audio_data = JObj
     [(''message_type'', JStr ''input_audio_chunk''),
      (''audio_base_64'', JStr (b64encode audio_data))]"

definition commit_msg :: json where
  "commit_msg = JObj
     [(''message_type'', JStr ''input_audio_chunk''),
      (''audio_base_64'', JStr []),
      (''commit'', JBool True)]"

text \<open>
  One pass through the body of the \<^verbatim>\<open>while\<close> of \<^verbatim>\<open>receive_from_client\<close>, lines 201 to
  255, with the outcome of the write to the provider it may do. The counter of chunks
  only feeds a log line and is left out.
\<close>

definition receive_from_client_body ::
  "runtime \<Rightarrow> session \<Rightarrow> received \<times> bool \<Rightarrow> flow \<times> session" where
  "receive_from_client_body rt s m =
    (let sent = snd m in
     case fst m of
       Timeout \<Rightarrow> (Continue, s)
     | ReceiveRaises \<Rightarrow> (Leave, s\<lparr>client_connected := False, should_stop := True\<rparr>)
     | Received Disconnect \<Rightarrow> (Leave, s\<lparr>client_connected := False, should_stop := True\<rparr>)
     | Received (Bytes audio_data) \<Rightarrow> elevenlabs_send s sent (chunk_message audio_data)
     | Received (Text t) \<Rightarrow>
        (case loads rt t of
           None \<Rightarrow> (Continue, s)
         | Some (JObj data) \<Rightarrow>
            (let ty = dict_get data ''type'' JNull in
             if ty = JStr ''stop'' then elevenlabs_send s sent commit_msg
             else if ty = JStr ''set_mode''
             then (let mode = dict_get data ''mode'' (JStr ''balanced'')
                   in (Continue,
                       s\<lparr>current_mode := (if mode = JStr ''strict'' then STRICT else BALANCED)\<rparr>))
             else if ty = JStr ''clear''
             then (Continue, s\<lparr>accumulated_transcript := []\<rparr>)
             else (Continue, s))
         | Some _ \<Rightarrow> (Leave, s\<lparr>client_connected := False, should_stop := True\<rparr>))
     | Received Other \<Rightarrow> (Continue, s))"

text \<open>
  \<^verbatim>\<open>receive_from_client\<close> on what the successive calls of \<^verbatim>\<open>receive\<close> give. The list
  ends where the history that is looked at ends.
\<close>

fun receive_from_client :: "runtime \<Rightarrow> session \<Rightarrow> (received \<times> bool) list \<Rightarrow> session" where
  "receive_from_client rt s [] = s"
| "receive_from_client rt s (m # ms) =
     (if should_stop s \<or> \<not> client_connected s then s
      else case receive_from_client_body rt s m of
             (Continue, s') \<Rightarrow> receive_from_client rt s' ms
           | (Leave, s') \<Rightarrow> s')"

subsection \<open>The session\<close>

text \<open>
  The two loops and the tasks share one thread and take turns at their \<^verbatim>\<open>await\<close>s. A
  history of the session is a list of events: a message of the provider arrives, the
  connection of the provider closes, a call of \<^verbatim>\<open>receive\<close> on the client returns, or
  a task that was created runs. Each event runs the code it wakes to the point where
  that code waits for its next event; the sends inside it carry their outcomes, and no
  other event comes between the start of such a send and its end.

  The provider loop tests the two flags when a message arrives, before it handles it. The
  client loop tests them before it waits, so a message that arrives while it waits is
  handled whatever the flags have become, and the test follows at once.
\<close>

datatype event =
    ProviderMessage string bool
  | ProviderClosed
  | ClientReceive received bool
  | TaskRuns nat gemini_env bool bool

fun created :: "action list \<Rightarrow> string list" where
  "created [] = []"
| "created (CreateTask t # as) = t # created as"
| "created (a # as) = created as"

record gathering =
  sess :: session
  provider_loop :: bool
  client_loop :: bool
  finished :: "nat list"

definition start :: "session \<Rightarrow> gathering" where
  "start s =
     \<lparr>sess = s, provider_loop = True,
      client_loop = (\<not> should_stop s \<and> client_connected s), finished = []\<rparr>"

fun step :: "runtime \<Rightarrow> gathering \<Rightarrow> event \<Rightarrow> gathering" where
  "step rt g (ProviderMessage message delivered) =
     (if provider_loop g
      then (case receive_from_elevenlabs_body rt (sess g) (message, delivered) of
              (Continue, s') \<Rightarrow> g\<lparr>sess := s'\<rparr>
            | (Leave, s') \<Rightarrow> g\<lparr>sess := s', provider_loop := False\<rparr>)
      else g)"
| "step rt g ProviderClosed = g\<lparr>provider_loop := False\<rparr>"
| "step rt g (ClientReceive r sent) =
     (if client_loop g
      then (case receive_from_client_body rt (sess g) (r, sent) of
              (Continue, s') \<Rightarrow>
                g\<lparr>sess := s', client_loop := (\<not> should_stop s' \<and> client_connected s')\<rparr>
            | (Leave, s') \<Rightarrow> g\<lparr>sess := s', client_loop := False\<rparr>)
      else g)"
| "step rt g (TaskRuns i env delivered1 delivered2) =
     (if i < length (created (trace (sess g))) \<and> i \<notin> set (finished g)
      then g\<lparr>sess := process_with_gemini rt env (sess g) (created (trace (sess g)) ! i)
                         delivered1 delivered2,
              finished := i # finished g\<rparr>
      else g)"

definition gather :: "runtime \<Rightarrow> session \<Rightarrow> event list \<Rightarrow> gathering" where
  "gather rt s events = foldl (step rt) (start s) events"

text \<open>
  \<^verbatim>\<open>websocket_transcribe\<close> after \<^verbatim>\<open>accept\<close>: the key read from the environment, the
  outcome of the first write to the client, the outcome of the connection to the provider
  and the history of the session give the actions of the session in order.
\<close>

datatype connect_outcome = Connected | InvalidStatusCode int | ConnectRaises exc

definition error_message :: "string \<Rightarrow> json" where
  "error_message detail = JObj [(''type'', JStr ''error''), (''message'', JStr detail)]"

definition connected_message :: json where
  "connected_message = JObj
     [(''type'', JStr ''connected''), (''message'', JStr ''Connected to ElevenLabs STT'')]"

definition websocket_transcribe ::
  "runtime \<Rightarrow> string option \<Rightarrow> bool \<Rightarrow> connect_outcome \<Rightarrow> event list \<Rightarrow> action list" where
  "websocket_transcribe rt ELEVENLABS_API_KEY delivered connect events =
    (if ELEVENLABS_API_KEY = None \<or> ELEVENLABS_API_KEY = Some []
     then (if delivered
           then [ClientSend (error_message ''ElevenLabs API key not configured'') True,
                 ClientClose]
           else [ClientSend (error_message ''ElevenLabs API key not configured'') False])
     else case connect of
       InvalidStatusCode c \<Rightarrow>
         [ProviderConnect,
          ClientSend (error_message (''ElevenLabs HTTP '' @ str_int c)) delivered]
     | ConnectRaises e \<Rightarrow>
         [ProviderConnect, ClientSend (error_message (str_exc rt e)) delivered]
     | Connected \<Rightarrow>
         (case safe_send (initial_session [ProviderConnect]) delivered connected_message of
            (False, s) \<Rightarrow> trace s @ [ProviderClose]
          | (True, s) \<Rightarrow> trace (sess (gather rt s events)) @ [ProviderClose]))"

section \<open>The words of the specification\<close>

text \<open>
  The fallback result of the Enrichment Client: an error text is set, the risk is high,
  the confidence is 0, the detected languages are \<^verbatim>\<open>["unknown"]\<close>, and the cleaned and
  the prompt-ready texts are the input.
\<close>

definition is_fallback :: "string \<Rightarrow> dict \<Rightarrow> bool" where
  "is_fallback raw r \<longleftrightarrow>
     (\<exists>msg. map_of r ''error'' = Some (JStr msg)) \<and>
     map_of r ''meaning_change_risk'' = Some (JStr ''high'') \<and>
     map_of r ''confidence_score'' = Some (JFloat 0) \<and>
     map_of r ''detected_languages'' = Some (JArr [JStr ''unknown'']) \<and>
     map_of r ''cleaned_english_meaning'' = Some (JStr raw) \<and>
     map_of r ''prompt_ready_english'' = Some (JStr raw)"

text \<open>
  A response carries the text \<open>s\<close>: its status is 200 and its body is an object whose
  \<^verbatim>\<open>candidates[0].content.parts[0]\<close> is an object with the text \<open>s\<close> (the empty text when
  the part has none).
\<close>

definition answered_text :: "response \<Rightarrow> string \<Rightarrow> bool" where
  "answered_text resp s \<longleftrightarrow>
     status_code resp = 200 \<and>
     (\<exists>result c0 cs content p0 ps.
        json_body resp = Inr (JObj result) \<and>
        map_of result ''candidates'' = Some (JArr (JObj c0 # cs)) \<and>
        map_of c0 ''content'' = Some (JObj content) \<and>
        map_of content ''parts'' = Some (JArr (JObj p0 # ps)) \<and>
        dict_get p0 ''text'' (JStr []) = JStr s)"

text \<open>The service answers the request of this call with a response that carries \<open>s\<close>.\<close>

definition service_text ::
  "runtime \<Rightarrow> gemini_env \<Rightarrow> string \<Rightarrow> ProcessingMode \<Rightarrow> string option \<Rightarrow> dict list option
     \<Rightarrow> string \<Rightarrow> bool" where
  "service_text rt env raw mode ctx previous_turns s \<longleftrightarrow>
     (\<exists>key resp.
        gemini_api env = Some key \<and> key \<noteq> [] \<and>
        post env (GEMINI_API_URL @ ''?key='' @ key)
          (request_payload (system_prompt mode)
             (user_prompt rt raw ctx previous_turns)) = Inr resp \<and>
        answered_text resp s)"

text \<open>
  The failure paths of \<^verbatim>\<open>process_transcript\<close> as the code has them: the credential is
  missing; the request times out or the transport fails; the status is not 200; the
  response has no payload, or its text does not decode to a JSON object.
\<close>

definition failure_path ::
  "runtime \<Rightarrow> gemini_env \<Rightarrow> string \<Rightarrow> ProcessingMode \<Rightarrow> string option \<Rightarrow> dict list option
     \<Rightarrow> bool" where
  "failure_path rt env raw mode ctx previous_turns \<longleftrightarrow>
     (case gemini_api env of
        None \<Rightarrow> True
      | Some key \<Rightarrow>
          key = [] \<or>
          (case post env (GEMINI_API_URL @ ''?key='' @ key)
                  (request_payload (system_prompt mode)
                     (user_prompt rt raw ctx previous_turns)) of
             Inl e \<Rightarrow> True
           | Inr resp \<Rightarrow>
               status_code resp \<noteq> 200 \<or>
               (\<forall>s. answered_text resp s \<longrightarrow> (\<forall>d. loads rt s \<noteq> Some (JObj d)))))"

text \<open>
  Conformance to the schema of \<^verbatim>\<open>get_json_schema\<close>: an object that has every required
  key and whose listed properties, where present, have the type the schema gives them.
\<close>

definition required_keys :: "string list" where
  "required_keys =
     [''detected_languages'', ''raw_transcript'', ''cleaned_english_meaning'',
      ''prompt_ready_english'', ''meaning_change_risk'', ''entities'', ''confidence_score'']"

definition field_ok :: "dict \<Rightarrow> string \<Rightarrow> (json \<Rightarrow> bool) \<Rightarrow> bool" where
  "field_ok d k P = (case map_of d k of None \<Rightarrow> True | Some v \<Rightarrow> P v)"

fun is_string :: "json \<Rightarrow> bool" where
  "is_string (JStr s) = True"
| "is_string _ = False"

fun is_boolean :: "json \<Rightarrow> bool" where
  "is_boolean (JBool b) = True"
| "is_boolean _ = False"

fun is_number :: "json \<Rightarrow> bool" where
  "is_number (JInt n) = True"
| "is_number (JFloat r) = True"
| "is_number _ = False"

fun is_string_array :: "json \<Rightarrow> bool" where
  "is_string_array (JArr xs) = list_all is_string xs"
| "is_string_array _ = False"

fun is_risk :: "json \<Rightarrow> bool" where
  "is_risk (JStr s) = (s = ''low'' \<or> s = ''medium'' \<or> s = ''high'')"
| "is_risk _ = False"

fun is_entity :: "json \<Rightarrow> bool" where
  "is_entity (JObj e) =
     (map_of e ''text'' \<noteq> None \<and> map_of e ''type'' \<noteq> None \<and>
      field_ok e ''text'' is_string \<and> field_ok e ''type'' is_string)"
| "is_entity _ = False"

fun is_entity_array :: "json \<Rightarrow> bool" where
  "is_entity_array (JArr xs) = list_all is_entity xs"
| "is_entity_array _ = False"

fun conforms :: "json \<Rightarrow> bool" where
  "conforms (JObj d) =
     (list_all (\<lambda>k. map_of d k \<noteq> None) required_keys \<and>
      field_ok d ''detected_languages'' is_string_array \<and>
      field_ok d ''raw_transcript'' is_string \<and>
      field_ok d ''cleaned_english_meaning'' is_string \<and>
      field_ok d ''prompt_ready_english'' is_string \<and>
      field_ok d ''removed_fillers'' is_boolean \<and>
      field_ok d ''meaning_change_risk'' is_risk \<and>
      field_ok d ''entities'' is_entity_array \<and>
      field_ok d ''confidence_score'' is_number)"
| "conforms _ = False"

text \<open>
  The failure paths as the specification lists them. Its "malformed structured output"
  counts every schema violation: the text does not decode, or it decodes to a value that
  does not conform to the schema.
\<close>

definition malformed_output :: "runtime \<Rightarrow> string \<Rightarrow> bool" where
  "malformed_output rt s = (case loads rt s of None \<Rightarrow> True | Some v \<Rightarrow> \<not> conforms v)"

definition claimed_failure_path ::
  "runtime \<Rightarrow> gemini_env \<Rightarrow> string \<Rightarrow> ProcessingMode \<Rightarrow> string option \<Rightarrow> dict list option
     \<Rightarrow> bool" where
  "claimed_failure_path rt env raw mode ctx previous_turns \<longleftrightarrow>
     (case gemini_api env of
        None \<Rightarrow> True
      | Some key \<Rightarrow>
          key = [] \<or>
          (case post env (GEMINI_API_URL @ ''?key='' @ key)
                  (request_payload (system_prompt mode)
                     (user_prompt rt raw ctx previous_turns)) of
             Inl e \<Rightarrow> True
           | Inr resp \<Rightarrow>
               status_code resp \<noteq> 200 \<or>
               (\<forall>s. answered_text resp s \<longrightarrow> malformed_output rt s)))"

text \<open>
  The instruction template that a request payload carries: the text of the first part
  of its first content.
\<close>

definition first_instruction :: "json \<Rightarrow> json option" where
  "first_instruction payload =
     (case payload of
        JObj d \<Rightarrow>
          (case map_of d ''contents'' of
             Some (JArr (JObj c # cs)) \<Rightarrow>
               (case map_of c ''parts'' of
                  Some (JArr (JObj p # ps)) \<Rightarrow> map_of p ''text''
                | _ \<Rightarrow> None)
           | _ \<Rightarrow> None)
      | _ \<Rightarrow> None)"

text \<open>The writes to the client among the actions of a session.\<close>

fun is_client_send :: "action \<Rightarrow> bool" where
  "is_client_send (ClientSend m d) = True"
| "is_client_send _ = False"

text \<open>
  The rule of the language field: a message whose \<^verbatim>\<open>is_final\<close> is true has the key
  \<^verbatim>\<open>language\<close>, a message whose \<^verbatim>\<open>is_final\<close> is false does not have it. An action
  obeys the rule when it is no write to the client or the message it writes obeys it.
\<close>

definition language_rule :: "json \<Rightarrow> bool" where
  "language_rule m =
     (case m of
        JObj d \<Rightarrow>
          (map_of d ''is_final'' = Some (JBool True) \<longrightarrow> map_of d ''language'' \<noteq> None) \<and>
          (map_of d ''is_final'' = Some (JBool False) \<longrightarrow> map_of d ''language'' = None)
      | _ \<Rightarrow> True)"

fun send_obeys :: "action \<Rightarrow> bool" where
  "send_obeys (ClientSend m d) = language_rule m"
| "send_obeys _ = True"

section \<open>Example inputs\<close>

text \<open>
  The decoder on the texts of the examples below, each with the value \<^verbatim>\<open>json.loads\<close>
  gives for it; any other text counts as not JSON. The other two library functions give
  fixed texts.
\<close>

definition extreme_text :: string where
  \<open>extreme_text = ''{"meaning_change_risk": "extreme"}''\<close>

definition stop_text :: string where
  \<open>stop_text = ''{"type": "stop"}''\<close>

definition clear_text :: string where
  \<open>clear_text = ''{"type": "clear"}''\<close>

definition strict_text :: string where
  \<open>strict_text = ''{"type": "set_mode", "mode": "strict"}''\<close>

definition upper_text :: string where
  \<open>upper_text = ''{"type": "set_mode", "mode": "STRICT"}''\<close>

definition partial_text :: string where
  \<open>partial_text = ''{"message_type": "partial_transcript", "text": "book a"}''\<close>

definition final_text :: string where
  \<open>final_text =
     ''{"message_type": "committed_transcript", "text": " book a flight tomorrow "}''\<close>

definition tamil_text :: string where
  \<open>tamil_text =
     ''{"message_type": "committed_transcript", "text": "naalai", "language_code": "ta"}''\<close>

definition example_documents :: "(string \<times> json) list" where
  "example_documents =
     [(extreme_text, JObj [(''meaning_change_risk'', JStr ''extreme'')]),
      (stop_text, JObj [(''type'', JStr ''stop'')]),
      (clear_text, JObj [(''type'', JStr ''clear'')]),
      (strict_text, JObj [(''type'', JStr ''set_mode''), (''mode'', JStr ''strict'')]),
      (upper_text, JObj [(''type'', JStr ''set_mode''), (''mode'', JStr ''STRICT'')]),
      (partial_text,
         JObj [(''message_type'', JStr ''partial_transcript''), (''text'', JStr ''book a'')]),
      (final_text,
         JObj [(''message_type'', JStr ''committed_transcript''),
               (''text'', JStr '' book a flight tomorrow '')]),
      (tamil_text,
         JObj [(''message_type'', JStr ''committed_transcript''),
               (''text'', JStr ''naalai''), (''language_code'', JStr ''ta'')])]"

definition example_runtime :: runtime where
  "example_runtime =
     \<lparr>loads = map_of example_documents,
      str_exc = (\<lambda>e. ''exception''),
      py_str = (\<lambda>v. ''value'')\<rparr>"

text \<open>A service whose every request times out.\<close>

definition timeout_env :: gemini_env where
  "timeout_env = \<lparr>gemini_api = Some ''key'', post = (\<lambda>url payload. Inl TimeoutException)\<rparr>"

text \<open>
  A service that answers every request with status 200 and one candidate whose text is
  a JSON object with one key, a risk outside the enumeration of the schema.
\<close>

definition extreme_response :: response where
  \<open>extreme_response =
     \<lparr>status_code = 200,
      json_body = Inr (JObj
        [(''candidates'', JArr
           [JObj [(''content'', JObj
              [(''parts'', JArr
                 [JObj [(''text'', JStr extreme_text)]])])]])])\<rparr>\<close>

definition extreme_env :: gemini_env where
  "extreme_env = \<lparr>gemini_api = Some ''key'', post = (\<lambda>url payload. Inr extreme_response)\<rparr>"

text \<open>
  A service that looks at the instruction template of the request: it answers with the
  status 418 when the payload carries the strict template, with the status 503 when it
  carries the balanced one, and fails otherwise.
\<close>

definition probe_env :: gemini_env where
  "probe_env =
     \<lparr>gemini_api = Some ''key'',
      post = (\<lambda>url payload.
        if first_instruction payload = Some (JStr STRICT_SYSTEM_PROMPT)
        then Inr \<lparr>status_code = 418, json_body = Inl JSONDecodeError\<rparr>
        else if first_instruction payload = Some (JStr BALANCED_SYSTEM_PROMPT)
        then Inr \<lparr>status_code = 503, json_body = Inl JSONDecodeError\<rparr>
        else Inl (OtherException ''no template''))\<rparr>"

text \<open>
  A session after the provider has accepted the connection and the client has been told
  so; the message of a partial transcript; the state of the two loops after the relay of
  that message has failed while both were waiting.
\<close>

definition live_session :: session where
  "live_session = initial_session [ProviderConnect, ClientSend connected_message True]"

definition partial_message :: json where
  "partial_message = JObj
     [(''type'', JStr ''transcript''), (''text'', JStr ''book a''), (''is_final'', JBool False)]"

definition dead_gathering :: gathering where
  "dead_gathering =
     \<lparr>sess = snd (safe_send live_session False partial_message),
      provider_loop = True, client_loop = True, finished = []\<rparr>"

definition later_events :: "event list" where
  "later_events =
     [ClientReceive (Received (Bytes [0x4D, 0x61, 0x6E])) True,
      ProviderMessage final_text True,
      TaskRuns 0 timeout_env True True]"

section \<open>Facts about the example inputs\<close>

lemma example_loads:
  "loads example_runtime stop_text = Some (JObj [(''type'', JStr ''stop'')])"
  "loads example_runtime clear_text = Some (JObj [(''type'', JStr ''clear'')])"
  "loads example_runtime strict_text
     = Some (JObj [(''type'', JStr ''set_mode''), (''mode'', JStr ''strict'')])"
  "loads example_runtime upper_text
     = Some (JObj [(''type'', JStr ''set_mode''), (''mode'', JStr ''STRICT'')])"
  "loads example_runtime partial_text
     = Some (JObj [(''message_type'', JStr ''partial_transcript''), (''text'', JStr ''book a'')])"
  "loads example_runtime final_text
     = Some (JObj [(''message_type'', JStr ''committed_transcript''),
                   (''text'', JStr '' book a flight tomorrow '')])"
  "loads example_runtime tamil_text
     = Some (JObj [(''message_type'', JStr ''committed_transcript''),
                   (''text'', JStr ''naalai''), (''language_code'', JStr ''ta'')])"
  by (simp_all add: example_runtime_def example_documents_def extreme_text_def stop_text_def
      clear_text_def strict_text_def upper_text_def partial_text_def final_text_def
      tamil_text_def)

lemma strip_examples:
  "py_strip '' book a flight tomorrow '' = ''book a flight tomorrow''"
  "py_strip ''naalai'' = ''naalai''"
  by code_simp+

lemma live_session_fields:
  "\<not> should_stop live_session" "client_connected live_session"
  "current_mode live_session = BALANCED" "accumulated_transcript live_session = []"
  "trace live_session = [ProviderConnect, ClientSend connected_message True]"
  by (simp_all add: live_session_def initial_session_def)

section \<open>The Enrichment Client\<close>

lemma fallback_is_fallback: "is_fallback raw (create_fallback_response raw e)"
  by (simp add: is_fallback_def create_fallback_response_def)

lemma read_response_answered:
  assumes "answered_text resp s"
  shows "read_response rt raw resp = parse_output rt raw (JStr s)"
  using assms
  by (auto simp: answered_text_def read_response_def dict_get_def)

lemma py_get_Inr: "py_get v k dflt = Inr x \<Longrightarrow> \<exists>d. v = JObj d \<and> x = dict_get d k dflt"
  by (cases v) auto

lemma py_first_Inr_obj:
  "py_first v = Inr (JObj c) \<Longrightarrow> \<exists>xs. v = JArr (JObj c # xs)"
  by (cases v rule: py_first.cases) auto

lemma read_response_unanswered:
  assumes "\<forall>s. \<not> answered_text resp s"
  shows "(\<exists>e. read_response rt raw resp = Inl e) \<or>
         (\<exists>e. read_response rt raw resp = Inr (create_fallback_response raw e))"
proof (cases "status_code resp = 200")
  case False
  then show ?thesis by (auto simp: read_response_def)
next
  case ok: True
  show ?thesis
  proof (cases "json_body resp")
    case (Inl e)
    with ok show ?thesis by (simp add: read_response_def)
  next
    case (Inr result)
    show ?thesis
    proof (cases "read_response rt raw resp")
      case (Inl e)
      then show ?thesis by simp
    next
      case r: (Inr r)
      show ?thesis
      proof (rule ccontr)
        assume neg: "\<not> ?thesis"
        with r have nf: "\<forall>e. r \<noteq> create_fallback_response raw e" by auto
        from r ok Inr nf obtain candidates where
          c: "py_get result ''candidates'' (JArr []) = Inr candidates" "truthy candidates"
          by (auto simp: read_response_def split: sum.splits if_splits)
        from r ok Inr nf c obtain c0 where c0: "py_first candidates = Inr c0"
          by (auto simp: read_response_def split: sum.splits if_splits)
        from r ok Inr nf c c0 obtain content where
          ct: "py_get c0 ''content'' (JObj []) = Inr content"
          by (auto simp: read_response_def split: sum.splits if_splits)
        from r ok Inr nf c c0 ct obtain parts where
          p: "py_get content ''parts'' (JArr []) = Inr parts" "truthy parts"
          by (auto simp: read_response_def split: sum.splits if_splits)
        from r ok Inr nf c c0 ct p obtain p0 where p0: "py_first parts = Inr p0"
          by (auto simp: read_response_def split: sum.splits if_splits)
        from r ok Inr nf c c0 ct p p0 obtain tv where
          t: "py_get p0 ''text'' (JStr []) = Inr tv" "parse_output rt raw tv = Inr r"
          by (auto simp: read_response_def split: sum.splits if_splits)
        from t(2) nf obtain s where s: "tv = JStr s"
          by (auto simp: parse_output_def split: json.splits)
        from c(1) obtain dres where dres: "result = JObj dres"
          "candidates = dict_get dres ''candidates'' (JArr [])"
          by (auto dest: py_get_Inr)
        from ct obtain dc0 where dc0: "c0 = JObj dc0" "content = dict_get dc0 ''content'' (JObj [])"
          by (auto dest: py_get_Inr)
        from p(1) obtain dcont where dcont: "content = JObj dcont"
          "parts = dict_get dcont ''parts'' (JArr [])"
          by (auto dest: py_get_Inr)
        from t(1) obtain dp0 where dp0: "p0 = JObj dp0" "tv = dict_get dp0 ''text'' (JStr [])"
          by (auto dest: py_get_Inr)
        from c0 dc0 obtain cs where cs: "candidates = JArr (JObj dc0 # cs)"
          by (auto dest: py_first_Inr_obj)
        from p0 dp0 obtain ps where ps: "parts = JArr (JObj dp0 # ps)"
          by (auto dest: py_first_Inr_obj)
        have "map_of dres ''candidates'' = Some (JArr (JObj dc0 # cs))"
          using dres(2) cs by (auto simp: dict_get_def split: option.splits)
        moreover have "map_of dc0 ''content'' = Some (JObj dcont)"
          using dc0(2) dcont(1) p(2) dcont(2)
          by (auto simp: dict_get_def split: option.splits)
        moreover have "map_of dcont ''parts'' = Some (JArr (JObj dp0 # ps))"
          using dcont(2) ps by (auto simp: dict_get_def split: option.splits)
        ultimately have "answered_text resp s"
          using ok Inr dres(1) dp0(2) s by (auto simp: answered_text_def)
        with assms show False by blast
      qed
    qed
  qed
qed


lemma dict_get_update_other:
  "k \<noteq> k' \<Longrightarrow> dict_get (AList.update k v d) k' dflt = dict_get d k' dflt"
  by (simp add: dict_get_def update_conv')

lemma parse_output_undecodable:
  "loads rt s = None \<Longrightarrow>
     parse_output rt raw (JStr s) =
       Inr (create_fallback_response raw ''Invalid JSON from Gemini'')"
  by (simp add: parse_output_def)

lemma parse_output_object:
  "loads rt s = Some (JObj d) \<Longrightarrow>
     parse_output rt raw (JStr s) =
       (case py_slice (dict_get d ''cleaned_english_meaning'' (JStr [])) of
          None \<Rightarrow> Inr (AList.update ''raw_transcript'' (JStr raw) d)
        | Some e \<Rightarrow> Inl e)"
  by (simp add: parse_output_def dict_get_update_other)

lemma parse_output_other:
  "loads rt s = Some v \<Longrightarrow> \<forall>d. v \<noteq> JObj d \<Longrightarrow> parse_output rt raw (JStr s) = Inl TypeError"
  by (cases v) (simp_all add: parse_output_def)

lemma parse_output_cases:
  "(\<exists>e. parse_output rt raw (JStr s) = Inl e) \<or>
   (\<exists>e. parse_output rt raw (JStr s) = Inr (create_fallback_response raw e)) \<or>
   (\<exists>d. loads rt s = Some (JObj d) \<and>
        parse_output rt raw (JStr s) = Inr (AList.update ''raw_transcript'' (JStr raw) d))"
proof (cases "loads rt s")
  case None
  then show ?thesis by (auto simp: parse_output_undecodable)
next
  case (Some v)
  show ?thesis
  proof (cases "\<exists>d. v = JObj d")
    case True
    then obtain d where "v = JObj d" by blast
    with Some show ?thesis
      by (auto simp: parse_output_object split: option.splits)
  next
    case False
    with Some show ?thesis by (auto simp: parse_output_other)
  qed
qed

lemma process_transcript_key_missing:
  "gemini_api env = None \<or> gemini_api env = Some [] \<Longrightarrow>
     process_transcript rt env raw mode ctx previous_turns = Inr (key_missing_response raw)"
  by (auto simp: process_transcript_def)

lemma process_transcript_with_key:
  "gemini_api env = Some key \<Longrightarrow> key \<noteq> [] \<Longrightarrow>
     process_transcript rt env raw mode ctx previous_turns =
       (case call_service rt env key raw
               (request_payload (system_prompt mode) (user_prompt rt raw ctx previous_turns)) of
          Inr d \<Rightarrow> Inr d
        | Inl e \<Rightarrow> Inr (create_fallback_response raw
                     (if e = TimeoutException then ''API timeout'' else str_exc rt e)))"
  by (auto simp: process_transcript_def split: sum.splits exc.splits)

lemma key_missing_is_fallback: "is_fallback raw (key_missing_response raw)"
  by (simp add: is_fallback_def key_missing_response_def)

lemma process_transcript_cases:
  "(\<exists>e. process_transcript rt env raw mode ctx previous_turns
           = Inr (create_fallback_response raw e)) \<or>
   process_transcript rt env raw mode ctx previous_turns = Inr (key_missing_response raw) \<or>
   (\<exists>s d. service_text rt env raw mode ctx previous_turns s \<and> loads rt s = Some (JObj d) \<and>
      process_transcript rt env raw mode ctx previous_turns
        = Inr (AList.update ''raw_transcript'' (JStr raw) d))"
proof (cases "gemini_api env = None \<or> gemini_api env = Some []")
  case True
  then show ?thesis by (simp add: process_transcript_key_missing)
next
  case False
  then obtain key where key: "gemini_api env = Some key" "key \<noteq> []" by auto
  let ?url = "GEMINI_API_URL @ ''?key='' @ key"
  let ?payload = "request_payload (system_prompt mode) (user_prompt rt raw ctx previous_turns)"
  note pt = process_transcript_with_key [OF key, of rt raw mode ctx previous_turns]
  show ?thesis
  proof (cases "post env ?url ?payload")
    case (Inl e)
    then show ?thesis by (auto simp: pt call_service_def)
  next
    case (Inr resp)
    then have cs: "call_service rt env key raw ?payload = read_response rt raw resp"
      by (simp add: call_service_def)
    show ?thesis
    proof (cases "\<exists>s. answered_text resp s")
      case False
      then have "\<forall>s. \<not> answered_text resp s" by blast
      from read_response_unanswered [OF this, of rt raw] show ?thesis
        by (auto simp: pt cs)
    next
      case True
      then obtain s where s: "answered_text resp s" by blast
      then have st: "service_text rt env raw mode ctx previous_turns s"
        using key Inr by (auto simp: service_text_def)
      from parse_output_cases [of rt raw s] st show ?thesis
        by (auto simp: pt cs read_response_answered [OF s])
    qed
  qed
qed

lemma failure_path_no_answer:
  assumes "failure_path rt env raw mode ctx prev"
  shows "\<not> (service_text rt env raw mode ctx prev s \<and> loads rt s = Some (JObj d))"
  using assms
  by (auto simp: failure_path_def service_text_def answered_text_def split: option.splits sum.splits)

text \<open>
  Claim C1, as the code has it. For every input text and mode, \<^verbatim>\<open>process_transcript\<close>
  returns a dict and never raises; and on every failure path of the code (the credential
  is missing, the request times out or the transport fails, the status is not 200, the
  payload is empty or missing, or the text of the answer does not decode to a JSON
  object) the dict is the fallback: the error is set, the risk is high, the confidence
  is 0, the languages are \<^verbatim>\<open>["unknown"]\<close>, and the cleaned and the prompt-ready texts
  are the input text.
\<close>

theorem process_never_raises:
  "(\<exists>r. process_transcript rt env raw mode ctx previous_turns = Inr r) \<and>
   (failure_path rt env raw mode ctx previous_turns \<longrightarrow>
      (\<exists>r. process_transcript rt env raw mode ctx previous_turns = Inr r \<and> is_fallback raw r))"
proof -
  note cases = process_transcript_cases [of rt env raw mode ctx previous_turns]
  have total: "\<exists>r. process_transcript rt env raw mode ctx previous_turns = Inr r"
    using cases by blast
  have "\<exists>r. process_transcript rt env raw mode ctx previous_turns = Inr r \<and> is_fallback raw r"
    if f: "failure_path rt env raw mode ctx previous_turns"
    using cases failure_path_no_answer [OF f]
    by (auto simp: fallback_is_fallback key_missing_is_fallback)
  with total show ?thesis by blast
qed

text \<open>The request times out: the result is the fallback with the error "API timeout".\<close>

theorem process_never_raises_witness:
  "failure_path example_runtime timeout_env ''book a flight tomorrow'' BALANCED None None \<and>
   process_transcript example_runtime timeout_env ''book a flight tomorrow'' BALANCED None None
     = Inr (create_fallback_response ''book a flight tomorrow'' ''API timeout'') \<and>
   is_fallback ''book a flight tomorrow''
     (create_fallback_response ''book a flight tomorrow'' ''API timeout'')"
proof -
  have f: "failure_path example_runtime timeout_env ''book a flight tomorrow'' BALANCED None None"
    by (simp add: failure_path_def timeout_env_def)
  have p: "process_transcript example_runtime timeout_env ''book a flight tomorrow'' BALANCED None None
     = Inr (create_fallback_response ''book a flight tomorrow'' ''API timeout'')"
    by (simp add: process_transcript_def call_service_def timeout_env_def)
  from process_never_raises [of example_runtime timeout_env "''book a flight tomorrow''" BALANCED None None]
    f p show ?thesis by auto
qed

text \<open>
  Claim C2. For every input text, the dict that \<^verbatim>\<open>process_transcript\<close> returns has the
  input text under \<^verbatim>\<open>raw_transcript\<close>, on every return path, whatever the service
  answered.
\<close>

theorem raw_transcript_is_input:
  "\<exists>r. process_transcript rt env raw mode ctx previous_turns = Inr r \<and>
       map_of r ''raw_transcript'' = Some (JStr raw)"
  using process_transcript_cases [of rt env raw mode ctx previous_turns]
  by (auto simp: create_fallback_response_def key_missing_response_def update_conv')

text \<open>The required keys of the conformance test are those of \<^verbatim>\<open>get_json_schema\<close>.\<close>

lemma required_keys_of_schema:
  "get_json_schema = JObj d \<Longrightarrow> map_of d ''required'' = Some (JArr (map JStr required_keys))"
  by (auto simp: get_json_schema_def required_keys_def)

lemma example_loads_extreme:
  "loads example_runtime extreme_text
     = Some (JObj [(''meaning_change_risk'', JStr ''extreme'')])"
  by (simp add: example_runtime_def example_documents_def)


text \<open>
  Claim C1 as stated fails. The specification counts every schema violation as malformed
  output, hence as a failure path. Here the answer decodes to an object that violates
  the schema, and the result is that object with \<^verbatim>\<open>raw_transcript\<close> added: no error is
  set and the risk is the one the service gave.
\<close>

theorem violation_not_failure_counterexample:
  "claimed_failure_path example_runtime extreme_env ''book a flight tomorrow'' BALANCED None None \<and>
   process_transcript example_runtime extreme_env ''book a flight tomorrow'' BALANCED None None
     = Inr [(''meaning_change_risk'', JStr ''extreme''),
            (''raw_transcript'', JStr ''book a flight tomorrow'')] \<and>
   \<not> is_fallback ''book a flight tomorrow''
       [(''meaning_change_risk'', JStr ''extreme''),
        (''raw_transcript'', JStr ''book a flight tomorrow'')]"
proof -
  have s: "s = extreme_text" if "answered_text extreme_response s" for s
    using that by (auto simp: answered_text_def extreme_response_def dict_get_def)
  have m: "malformed_output example_runtime extreme_text"
    by (simp add: malformed_output_def example_loads_extreme required_keys_def)
  have f: "claimed_failure_path example_runtime extreme_env ''book a flight tomorrow''
             BALANCED None None"
    using s m by (auto simp: claimed_failure_path_def extreme_env_def)
  have p: "process_transcript example_runtime extreme_env ''book a flight tomorrow''
             BALANCED None None
           = Inr [(''meaning_change_risk'', JStr ''extreme''),
                  (''raw_transcript'', JStr ''book a flight tomorrow'')]"
    by (simp add: process_transcript_def call_service_def extreme_env_def extreme_response_def
        read_response_def parse_output_def dict_get_def example_loads_extreme)
  show ?thesis
    by (simp add: f p is_fallback_def)
qed




section \<open>The Outbound Guard\<close>

lemma safe_send_eq:
  "safe_send s delivered m =
     (client_connected s \<and> delivered,
      s\<lparr>client_connected := client_connected s \<and> delivered,
        trace := trace s @ (if client_connected s then [ClientSend m delivered] else [])\<rparr>)"
  by (simp add: safe_send_def)

lemma process_with_gemini_dead:
  "\<not> client_connected s \<Longrightarrow> process_with_gemini rt env s t d1 d2 = s"
  by (simp add: process_with_gemini_def)

lemma provider_body_dead:
  "\<not> client_connected s \<Longrightarrow> receive_from_elevenlabs_body rt s m = (Leave, s)"
  by (simp add: receive_from_elevenlabs_body_def)

lemma client_body_dead:
  assumes "\<not> client_connected s"
  shows "\<not> client_connected (snd (receive_from_client_body rt s m)) \<and>
         filter is_client_send (trace (snd (receive_from_client_body rt s m)))
           = filter is_client_send (trace s)"
  using assms
  by (auto simp: receive_from_client_body_def elevenlabs_send_def Let_def
      split: received.splits frame.splits option.splits json.splits)

lemma step_dead:
  assumes "\<not> client_connected (sess g)"
  shows "\<not> client_connected (sess (step rt g ev)) \<and>
         filter is_client_send (trace (sess (step rt g ev)))
           = filter is_client_send (trace (sess g))"
proof (cases ev)
  case (ProviderMessage message delivered)
  with assms show ?thesis by (simp add: provider_body_dead)
next
  case ProviderClosed
  with assms show ?thesis by simp
next
  case (ClientReceive r sent)
  show ?thesis
  proof (cases "client_loop g")
    case False
    with ClientReceive assms show ?thesis by simp
  next
    case True
    obtain f s' where b: "receive_from_client_body rt (sess g) (r, sent) = (f, s')"
      by (cases "receive_from_client_body rt (sess g) (r, sent)")
    from client_body_dead [OF assms, of rt "(r, sent)"] b
    have "\<not> client_connected s'"
      "filter is_client_send (trace s') = filter is_client_send (trace (sess g))"
      by simp_all
    with ClientReceive True b show ?thesis
      by (cases f) simp_all
  qed
next
  case (TaskRuns i env d1 d2)
  with assms show ?thesis by (simp add: process_with_gemini_dead)
qed

lemma run_dead:
  assumes "\<not> client_connected (sess g)"
  shows "\<not> client_connected (sess (foldl (step rt) g events)) \<and>
         filter is_client_send (trace (sess (foldl (step rt) g events)))
           = filter is_client_send (trace (sess g))"
  using assms
proof (induction events arbitrary: g)
  case Nil
  then show ?case by simp
next
  case (Cons ev events)
  from step_dead [OF Cons.prems, of rt ev] Cons.IH [of "step rt g ev"]
  show ?case by simp
qed

text \<open>
  Claim C3. \<^verbatim>\<open>safe_send\<close> has no exceptional result: a write that raises is turned into
  the value \<^verbatim>\<open>False\<close> and clears the flag \<^verbatim>\<open>client_connected\<close>. After one failed send,
  whatever the session does next (messages of the provider, frames and control messages
  of the client, enrichment tasks), the flag stays cleared, every later \<^verbatim>\<open>safe_send\<close>
  returns \<^verbatim>\<open>False\<close> and leaves the state as it is, and no write to the client is added.
\<close>

theorem dead_state_is_permanent:
  assumes "client_connected s" and "sess g = snd (safe_send s False d0)"
  shows "fst (safe_send s False d0) = False \<and>
         \<not> client_connected (sess g) \<and>
         safe_send (sess (foldl (step rt) g events)) delivered d
           = (False, sess (foldl (step rt) g events)) \<and>
         filter is_client_send (trace (sess (foldl (step rt) g events)))
           = filter is_client_send (trace (sess g))"
proof -
  have dead: "\<not> client_connected (sess g)"
    using assms by (simp add: safe_send_eq)
  from run_dead [OF dead, of rt events] dead show ?thesis
    by (simp add: safe_send_eq)
qed

text \<open>
  The relay of a partial transcript fails while both loops wait. An audio frame, a final
  transcript of the provider and an enrichment task follow: the writes to the client are
  still the two from before, and a send returns \<^verbatim>\<open>False\<close> without a write.
\<close>

theorem dead_state_is_permanent_witness:
  "client_connected live_session \<and>
   sess dead_gathering = snd (safe_send live_session False partial_message) \<and>
   fst (safe_send live_session False partial_message) = False \<and>
   safe_send (sess (foldl (step example_runtime) dead_gathering later_events)) True
       connected_message
     = (False, sess (foldl (step example_runtime) dead_gathering later_events)) \<and>
   filter is_client_send (trace (sess (foldl (step example_runtime) dead_gathering later_events)))
     = [ClientSend connected_message True, ClientSend partial_message False]"
proof -
  have a: "client_connected live_session"
    by (rule live_session_fields)
  have b: "sess dead_gathering = snd (safe_send live_session False partial_message)"
    by (simp add: dead_gathering_def)
  have c: "filter is_client_send (trace (sess dead_gathering))
             = [ClientSend connected_message True, ClientSend partial_message False]"
    by (simp add: dead_gathering_def safe_send_eq live_session_fields)
  from dead_state_is_permanent [OF a b, of example_runtime later_events True connected_message]
    a b c show ?thesis by simp
qed


section \<open>The provider loop\<close>

lemma created_append: "created (xs @ ys) = created xs @ created ys"
  by (induction xs rule: created.induct) simp_all

lemma provider_body_final:
  assumes live: "\<not> should_stop s" "client_connected s"
    and msg: "loads rt message = Some (JObj data)"
    and ty: "dict_get data ''message_type'' (JStr []) = JStr ''committed_transcript'' \<or>
             dict_get data ''message_type'' (JStr []) = JStr ''committed_transcript_with_timestamps''"
    and tx: "dict_get data ''text'' (JStr []) = JStr t"
  shows "receive_from_elevenlabs_body rt s (message, delivered) =
     (if py_strip t = [] then (Continue, s)
      else (Continue,
            s\<lparr>client_connected := delivered,
              accumulated_transcript := accumulated_transcript s @ '' '' @ py_strip t,
              trace := trace s @
                [ClientSend (JObj [(''type'', JStr ''transcript''),
                                   (''text'', JStr (py_strip t)),
                                   (''is_final'', JBool True),
                                   (''language'', dict_get data ''language_code'' (JStr ''en''))])
                   delivered]
                @ (if delivered then [CreateTask (py_strip t)] else [])\<rparr>))"
  using assms
  by (auto simp: receive_from_elevenlabs_body_def accumulate_and_dispatch_def safe_send_eq
      Let_def)

text \<open>
  Claim C5, as the code has it. Once the relay of a final transcript has returned, its
  text is appended to the accumulated transcript, and exactly one enrichment task is
  created for it if the client is marked connected at that moment, none otherwise. So a
  final transcript that the provider loop handles (the session is not stopped and the
  client is connected) with a text that is not empty after trimming creates exactly one
  task, for the trimmed text, when its relay to the client succeeds, and none when that
  send fails. A final transcript whose text is empty after trimming creates no task and
  leaves the whole state, the accumulated transcript included, as it is.
\<close>

theorem one_task_per_relayed_segment:
  assumes "\<not> should_stop s" and "client_connected s"
    and "loads rt message = Some (JObj data)"
    and "dict_get data ''message_type'' (JStr []) = JStr ''committed_transcript'' \<or>
         dict_get data ''message_type'' (JStr []) = JStr ''committed_transcript_with_timestamps''"
    and "dict_get data ''text'' (JStr []) = JStr t"
  shows "created (trace (accumulate_and_dispatch s1 x)) =
           created (trace s1) @ (if client_connected s1 then [x] else []) \<and>
         accumulated_transcript (accumulate_and_dispatch s1 x)
           = accumulated_transcript s1 @ '' '' @ x \<and>
         created (trace (snd (receive_from_elevenlabs_body rt s (message, delivered)))) =
           created (trace s) @ (if py_strip t \<noteq> [] \<and> delivered then [py_strip t] else []) \<and>
         (py_strip t \<noteq> [] \<longrightarrow>
            accumulated_transcript (snd (receive_from_elevenlabs_body rt s (message, delivered)))
              = accumulated_transcript s @ '' '' @ py_strip t) \<and>
         (py_strip t = [] \<longrightarrow>
            snd (receive_from_elevenlabs_body rt s (message, delivered)) = s)"
  by (simp add: provider_body_final [OF assms] created_append accumulate_and_dispatch_def)

text \<open>The final transcript " book a flight tomorrow ", relayed: one task, for the trimmed text.\<close>

theorem one_task_per_relayed_segment_witness:
  "created (trace (snd (receive_from_elevenlabs_body example_runtime live_session
                          (final_text, True))))
     = [''book a flight tomorrow''] \<and>
   accumulated_transcript (snd (receive_from_elevenlabs_body example_runtime live_session
                                  (final_text, True)))
     = '' book a flight tomorrow''"
proof -
  have mt: "dict_get [(''message_type'', JStr ''committed_transcript''),
                      (''text'', JStr '' book a flight tomorrow '')] ''message_type'' (JStr [])
              = JStr ''committed_transcript'' \<or>
            dict_get [(''message_type'', JStr ''committed_transcript''),
                      (''text'', JStr '' book a flight tomorrow '')] ''message_type'' (JStr [])
              = JStr ''committed_transcript_with_timestamps''"
    by (simp add: dict_get_def)
  have tx: "dict_get [(''message_type'', JStr ''committed_transcript''),
                      (''text'', JStr '' book a flight tomorrow '')] ''text'' (JStr [])
              = JStr '' book a flight tomorrow ''"
    by (simp add: dict_get_def)
  from one_task_per_relayed_segment [OF live_session_fields(1) live_session_fields(2)
      example_loads(6) mt tx, where delivered = True]
  show ?thesis
    by (simp add: strip_examples live_session_fields)
qed

text \<open>
  Claim C5 as stated fails: the session is live, the text of the final transcript is not
  empty after trimming, the relay of the transcript to the client raises, and no task is
  created, while the text is appended to the accumulated transcript.
\<close>

theorem no_task_counterexample:
  "loads example_runtime final_text
     = Some (JObj [(''message_type'', JStr ''committed_transcript''),
                   (''text'', JStr '' book a flight tomorrow '')]) \<and>
   py_strip '' book a flight tomorrow '' = ''book a flight tomorrow'' \<and>
   \<not> should_stop live_session \<and> client_connected live_session \<and>
   created (trace (snd (receive_from_elevenlabs_body example_runtime live_session
                          (final_text, False)))) = [] \<and>
   accumulated_transcript (snd (receive_from_elevenlabs_body example_runtime live_session
                                  (final_text, False))) = '' book a flight tomorrow''"
  using provider_body_final [OF live_session_fields(1) live_session_fields(2)
      example_loads(6), of "'' book a flight tomorrow ''" False]
  by (simp add: dict_get_def strip_examples live_session_fields example_loads)


section \<open>The client loop and the accumulated transcript\<close>

lemma client_body_clear:
  assumes "loads rt c = Some (JObj cd)" and "dict_get cd ''type'' JNull = JStr ''clear''"
  shows "receive_from_client_body rt s (Received (Text c), sent)
           = (Continue, s\<lparr>accumulated_transcript := []\<rparr>)"
  using assms by (simp add: receive_from_client_body_def)

lemma client_body_set_mode:
  assumes "loads rt c = Some (JObj cd)" and "dict_get cd ''type'' JNull = JStr ''set_mode''"
  shows "receive_from_client_body rt s (Received (Text c), sent)
           = (Continue,
              s\<lparr>current_mode :=
                   (if map_of cd ''mode'' = Some (JStr ''strict'') then STRICT else BALANCED)\<rparr>)"
  using assms by (auto simp: receive_from_client_body_def dict_get_def split: option.splits)

lemma client_body_stop:
  assumes "loads rt c = Some (JObj cd)" and "dict_get cd ''type'' JNull = JStr ''stop''"
  shows "receive_from_client_body rt s (Received (Text c), sent)
           = elevenlabs_send s sent commit_msg"
  using assms by (simp add: receive_from_client_body_def)

lemma client_body_bytes:
  "receive_from_client_body rt s (Received (Bytes b), sent)
     = elevenlabs_send s sent (chunk_message b)"
  by (simp add: receive_from_client_body_def)

text \<open>
  Claim C9. Whatever has been accumulated, after a \<^verbatim>\<open>clear\<close> control message the
  accumulated transcript is empty. A final transcript that the provider loop handles,
  with a text that is not empty after trimming, changes the accumulated transcript by
  appending one space and the trimmed text, whether its relay succeeds or not; the same
  message handled twice appends the segment twice.
\<close>

theorem accumulator_clear_and_append:
  assumes "loads rt c = Some (JObj cd)" and "dict_get cd ''type'' JNull = JStr ''clear''"
    and "\<not> should_stop s" and "client_connected s"
    and "loads rt message = Some (JObj data)"
    and "dict_get data ''message_type'' (JStr []) = JStr ''committed_transcript'' \<or>
         dict_get data ''message_type'' (JStr []) = JStr ''committed_transcript_with_timestamps''"
    and "dict_get data ''text'' (JStr []) = JStr t" and "py_strip t \<noteq> []"
  shows "accumulated_transcript (snd (receive_from_client_body rt s0 (Received (Text c), sent))) = [] \<and>
         accumulated_transcript (snd (receive_from_elevenlabs_body rt s (message, delivered)))
           = accumulated_transcript s @ '' '' @ py_strip t \<and>
         accumulated_transcript (receive_from_elevenlabs rt s [(message, True), (message, delivered)])
           = accumulated_transcript s @ '' '' @ py_strip t @ '' '' @ py_strip t"
proof -
  note final = provider_body_final [OF _ _ assms(5) assms(6) assms(7)]
  have one: "receive_from_elevenlabs_body rt s (message, d) =
     (Continue,
      s\<lparr>client_connected := d,
        accumulated_transcript := accumulated_transcript s @ '' '' @ py_strip t,
        trace := trace s @
          [ClientSend (JObj [(''type'', JStr ''transcript''),
                             (''text'', JStr (py_strip t)),
                             (''is_final'', JBool True),
                             (''language'', dict_get data ''language_code'' (JStr ''en''))]) d]
          @ (if d then [CreateTask (py_strip t)] else [])\<rparr>)" for d
    using final [OF assms(3) assms(4), of d] assms(8) by simp
  have clear: "accumulated_transcript
      (snd (receive_from_client_body rt s0 (Received (Text c), sent))) = []"
    by (simp add: client_body_clear [OF assms(1) assms(2)])
  have once: "accumulated_transcript (snd (receive_from_elevenlabs_body rt s (message, delivered)))
           = accumulated_transcript s @ '' '' @ py_strip t"
    by (simp add: one)
  let ?s1 = "snd (receive_from_elevenlabs_body rt s (message, True))"
  have live1: "\<not> should_stop ?s1" "client_connected ?s1"
    using assms(3) by (simp_all add: one)
  have two: "accumulated_transcript (snd (receive_from_elevenlabs_body rt ?s1 (message, delivered)))
           = accumulated_transcript ?s1 @ '' '' @ py_strip t"
    using final [OF live1, of delivered] assms(8) by simp
  have "receive_from_elevenlabs rt s [(message, True), (message, delivered)]
          = snd (receive_from_elevenlabs_body rt ?s1 (message, delivered))"
    using final [OF live1, of delivered] assms(8) by (simp add: one)
  with two have twice: "accumulated_transcript
      (receive_from_elevenlabs rt s [(message, True), (message, delivered)])
           = accumulated_transcript s @ '' '' @ py_strip t @ '' '' @ py_strip t"
    by (simp add: one)
  from clear once twice show ?thesis by blast
qed

text \<open>A clear after earlier words, one final transcript, and the same one twice.\<close>

theorem accumulator_clear_and_append_witness:
  "accumulated_transcript
     (snd (receive_from_client_body example_runtime
             (live_session\<lparr>accumulated_transcript := '' earlier words''\<rparr>)
             (Received (Text clear_text), True))) = [] \<and>
   accumulated_transcript
     (snd (receive_from_elevenlabs_body example_runtime live_session (final_text, False)))
     = '' book a flight tomorrow'' \<and>
   accumulated_transcript
     (receive_from_elevenlabs example_runtime live_session
        [(final_text, True), (final_text, False)])
     = '' book a flight tomorrow book a flight tomorrow''"
proof -
  have ty: "dict_get [(''type'', JStr ''clear'')] ''type'' JNull = JStr ''clear''"
    by (simp add: dict_get_def)
  have mt: "dict_get [(''message_type'', JStr ''committed_transcript''),
                      (''text'', JStr '' book a flight tomorrow '')] ''message_type'' (JStr [])
              = JStr ''committed_transcript'' \<or>
            dict_get [(''message_type'', JStr ''committed_transcript''),
                      (''text'', JStr '' book a flight tomorrow '')] ''message_type'' (JStr [])
              = JStr ''committed_transcript_with_timestamps''"
    by (simp add: dict_get_def)
  have tx: "dict_get [(''message_type'', JStr ''committed_transcript''),
                      (''text'', JStr '' book a flight tomorrow '')] ''text'' (JStr [])
              = JStr '' book a flight tomorrow ''"
    by (simp add: dict_get_def)
  have ne: "py_strip '' book a flight tomorrow '' \<noteq> []"
    by (simp add: strip_examples)
  from accumulator_clear_and_append [OF example_loads(2) ty live_session_fields(1)
      live_session_fields(2) example_loads(6) mt tx ne,
      where ?s0.0 = "live_session\<lparr>accumulated_transcript := '' earlier words''\<rparr>"
        and sent = True and delivered = False]
  show ?thesis
    by (simp add: strip_examples live_session_fields)
qed


section \<open>The language of a transcript\<close>

lemma safe_send_obeys:
  "list_all send_obeys (trace s) \<Longrightarrow> language_rule m \<Longrightarrow>
     list_all send_obeys (trace (snd (safe_send s d m)))"
  by (simp add: safe_send_eq)

lemma provider_body_obeys:
  assumes "list_all send_obeys (trace s)"
  shows "list_all send_obeys (trace (snd (receive_from_elevenlabs_body rt s m)))"
  using assms
  by (auto simp: receive_from_elevenlabs_body_def accumulate_and_dispatch_def safe_send_eq
      Let_def language_rule_def split: option.splits json.splits sum.splits bool.splits)

lemma client_body_obeys:
  assumes "list_all send_obeys (trace s)"
  shows "list_all send_obeys (trace (snd (receive_from_client_body rt s m)))"
  using assms
  by (auto simp: receive_from_client_body_def elevenlabs_send_def Let_def
      split: received.splits frame.splits option.splits json.splits)

lemma task_obeys:
  assumes "list_all send_obeys (trace s)"
  shows "list_all send_obeys (trace (process_with_gemini rt env s t d1 d2))"
  using assms
  by (auto simp: process_with_gemini_def safe_send_eq Let_def language_rule_def
      gemini_result_message_def split: sum.splits)

lemma step_obeys:
  assumes "list_all send_obeys (trace (sess g))"
  shows "list_all send_obeys (trace (sess (step rt g ev)))"
proof (cases ev)
  case (ProviderMessage message delivered)
  from provider_body_obeys [OF assms, of rt "(message, delivered)"] ProviderMessage assms
  show ?thesis
    by (auto split: prod.splits flow.splits)
next
  case ProviderClosed
  with assms show ?thesis by simp
next
  case (ClientReceive r sent)
  from client_body_obeys [OF assms, of rt "(r, sent)"] ClientReceive assms
  show ?thesis
    by (auto split: prod.splits flow.splits)
next
  case (TaskRuns i env d1 d2)
  with assms task_obeys [OF assms] show ?thesis by simp
qed

lemma run_obeys:
  "list_all send_obeys (trace (sess g)) \<Longrightarrow>
     list_all send_obeys (trace (sess (foldl (step rt) g events)))"
  by (induction events arbitrary: g) (simp_all add: step_obeys)

lemma session_obeys:
  "list_all send_obeys (websocket_transcribe rt key delivered connect events)"
proof -
  have g: "list_all send_obeys (trace (sess (gather rt s events)))"
    if "list_all send_obeys (trace s)" for s
    unfolding gather_def using that by (intro run_obeys) (simp add: start_def)
  have c: "language_rule connected_message"
    by (simp add: connected_message_def language_rule_def)
  have e: "language_rule (error_message x)" for x
    by (simp add: error_message_def language_rule_def)
  show ?thesis
  proof (cases "key = None \<or> key = Some []")
    case True
    then show ?thesis by (auto simp: websocket_transcribe_def e)
  next
    case False
    show ?thesis
    proof (cases connect)
      case Connected
      show ?thesis
      proof (cases delivered)
        case True
        with False Connected show ?thesis
          by (simp add: websocket_transcribe_def safe_send_eq initial_session_def c e g)
      next
        case no: False
        with False Connected show ?thesis
          by (simp add: websocket_transcribe_def safe_send_eq initial_session_def c e)
      qed
    next
      case (InvalidStatusCode n)
      with False show ?thesis by (simp add: websocket_transcribe_def e)
    next
      case (ConnectRaises x)
      with False show ?thesis by (simp add: websocket_transcribe_def e)
    qed
  qed
qed

text \<open>
  Claim C10. In every session, every message written to the client with \<^verbatim>\<open>is_final\<close>
  true has a \<^verbatim>\<open>language\<close> field and every message with \<^verbatim>\<open>is_final\<close> false has none.
  The final transcript message carries the \<^verbatim>\<open>language_code\<close> of the provider's message
  when that has one, and \<^verbatim>\<open>"en"\<close> when it has none.
\<close>

theorem language_of_transcripts:
  "list_all send_obeys (websocket_transcribe rt key delivered0 connect events) \<and>
   (\<not> should_stop s \<and> client_connected s \<and> loads rt message = Some (JObj data) \<and>
    (dict_get data ''message_type'' (JStr []) = JStr ''committed_transcript'' \<or>
     dict_get data ''message_type'' (JStr []) = JStr ''committed_transcript_with_timestamps'') \<and>
    dict_get data ''text'' (JStr []) = JStr t \<and> py_strip t \<noteq> [] \<longrightarrow>
    trace (snd (receive_from_elevenlabs_body rt s (message, delivered))) =
      trace s @
      [ClientSend (JObj [(''type'', JStr ''transcript''),
                         (''text'', JStr (py_strip t)),
                         (''is_final'', JBool True),
                         (''language'',
                            (case map_of data ''language_code'' of
                               None \<Rightarrow> JStr ''en''
                             | Some code \<Rightarrow> code))]) delivered]
      @ (if delivered then [CreateTask (py_strip t)] else []))"
proof -
  have "trace (snd (receive_from_elevenlabs_body rt s (message, delivered))) =
      trace s @
      [ClientSend (JObj [(''type'', JStr ''transcript''),
                         (''text'', JStr (py_strip t)),
                         (''is_final'', JBool True),
                         (''language'',
                            (case map_of data ''language_code'' of
                               None \<Rightarrow> JStr ''en''
                             | Some code \<Rightarrow> code))]) delivered]
      @ (if delivered then [CreateTask (py_strip t)] else [])"
    if a: "\<not> should_stop s" "client_connected s" "loads rt message = Some (JObj data)"
      "dict_get data ''message_type'' (JStr []) = JStr ''committed_transcript'' \<or>
       dict_get data ''message_type'' (JStr []) = JStr ''committed_transcript_with_timestamps''"
      "dict_get data ''text'' (JStr []) = JStr t" "py_strip t \<noteq> []"
    using provider_body_final [OF a(1-5), of delivered] a(6)
    by (simp add: dict_get_def)
  with session_obeys [of rt key delivered0 connect events] show ?thesis by blast
qed

text \<open>A final transcript with the language code "ta", and one without a language code.\<close>

theorem language_of_transcripts_witness:
  "trace (snd (receive_from_elevenlabs_body example_runtime live_session (tamil_text, True))) =
     [ProviderConnect, ClientSend connected_message True,
      ClientSend (JObj [(''type'', JStr ''transcript''),
                        (''text'', JStr ''naalai''),
                        (''is_final'', JBool True),
                        (''language'', JStr ''ta'')]) True,
      CreateTask ''naalai''] \<and>
   trace (snd (receive_from_elevenlabs_body example_runtime live_session (final_text, True))) =
     [ProviderConnect, ClientSend connected_message True,
      ClientSend (JObj [(''type'', JStr ''transcript''),
                        (''text'', JStr ''book a flight tomorrow''),
                        (''is_final'', JBool True),
                        (''language'', JStr ''en'')]) True,
      CreateTask ''book a flight tomorrow'']"
  using
    language_of_transcripts [of example_runtime None True Connected "[]" live_session tamil_text
      "[(''message_type'', JStr ''committed_transcript''),
        (''text'', JStr ''naalai''), (''language_code'', JStr ''ta'')]" "''naalai''" True]
    language_of_transcripts [of example_runtime None True Connected "[]" live_session final_text
      "[(''message_type'', JStr ''committed_transcript''),
        (''text'', JStr '' book a flight tomorrow '')]" "'' book a flight tomorrow ''" True]
  by (simp add: dict_get_def strip_examples live_session_fields example_loads)


section \<open>The processing mode\<close>

lemma prompts_differ: "STRICT_SYSTEM_PROMPT \<noteq> BALANCED_SYSTEM_PROMPT"
  by (simp add: STRICT_SYSTEM_PROMPT_def BALANCED_SYSTEM_PROMPT_def nl_def)

lemma process_transcript_returns:
  "\<exists>r. process_transcript rt env raw mode ctx previous_turns = Inr r"
  using process_transcript_cases [of rt env raw mode ctx previous_turns] by blast

lemma first_instruction_payload:
  "first_instruction (request_payload sp up) = Some (JStr sp)"
  by (simp add: first_instruction_def request_payload_def)

lemma process_transcript_request:
  assumes "gemini_api env = Some key" and "key \<noteq> []"
  shows "process_transcript rt env raw mode ctx previous_turns =
     (case post env (GEMINI_API_URL @ ''?key='' @ key)
             (JObj
               [(''contents'', JArr
                  [JObj [(''parts'', JArr
                     [JObj [(''text'', JStr (if mode = STRICT then STRICT_SYSTEM_PROMPT
                                             else BALANCED_SYSTEM_PROMPT))],
                      JObj [(''text'', JStr (user_prompt rt raw ctx previous_turns))]])]]),
                (''generationConfig'', JObj
                  [(''temperature'', JFloat 0.2),
                   (''topP'', JFloat 0.8),
                   (''topK'', JInt 40),
                   (''maxOutputTokens'', JInt 2048),
                   (''responseMimeType'', JStr ''application/json''),
                   (''responseSchema'', get_json_schema)])]) of
        Inl e \<Rightarrow> Inr (create_fallback_response raw
                   (if e = TimeoutException then ''API timeout'' else str_exc rt e))
      | Inr resp \<Rightarrow>
          (case read_response rt raw resp of
             Inr d \<Rightarrow> Inr d
           | Inl e \<Rightarrow> Inr (create_fallback_response raw
                        (if e = TimeoutException then ''API timeout'' else str_exc rt e))))"
  using process_transcript_with_key [OF assms, of rt raw mode ctx previous_turns]
  by (simp add: call_service_def request_payload_def system_prompt_def split: sum.splits)

text \<open>
  Claim C6. A session starts in the balanced mode. A \<^verbatim>\<open>set_mode\<close> control message sets
  the strict mode when its \<^verbatim>\<open>mode\<close> is the string \<^verbatim>\<open>"strict"\<close> and the balanced mode for
  every other value and for a missing \<^verbatim>\<open>mode\<close>, and changes nothing else. The system
  prompt is the strict template exactly for the strict mode and the balanced template
  exactly for the balanced mode, and the two templates are different texts. The payload
  of the request carries the strict template as its instruction exactly for the strict
  mode and the balanced one exactly for the balanced mode; the one request of
  \<^verbatim>\<open>process_transcript\<close> is posted with this payload, written out below, and the result
  is made from the answer to it. An enrichment task passes the mode of the session.
\<close>

theorem mode_selects_template:
  "current_mode (initial_session done_so_far) = BALANCED \<and>
   (loads rt c = Some (JObj cd) \<and> dict_get cd ''type'' JNull = JStr ''set_mode'' \<longrightarrow>
      receive_from_client_body rt s (Received (Text c), sent) =
        (Continue,
         s\<lparr>current_mode :=
              (if map_of cd ''mode'' = Some (JStr ''strict'') then STRICT else BALANCED)\<rparr>)) \<and>
   (system_prompt mode = STRICT_SYSTEM_PROMPT \<longleftrightarrow> mode = STRICT) \<and>
   (system_prompt mode = BALANCED_SYSTEM_PROMPT \<longleftrightarrow> mode = BALANCED) \<and>
   (first_instruction (request_payload (system_prompt mode) up) = Some (JStr STRICT_SYSTEM_PROMPT)
      \<longleftrightarrow> mode = STRICT) \<and>
   (first_instruction (request_payload (system_prompt mode) up) = Some (JStr BALANCED_SYSTEM_PROMPT)
      \<longleftrightarrow> mode = BALANCED) \<and>
   (gemini_api env = Some key \<and> key \<noteq> [] \<longrightarrow>
      process_transcript rt env raw mode ctx previous_turns =
        (case post env (GEMINI_API_URL @ ''?key='' @ key)
                (JObj
                  [(''contents'', JArr
                     [JObj [(''parts'', JArr
                        [JObj [(''text'', JStr (if mode = STRICT then STRICT_SYSTEM_PROMPT
                                                else BALANCED_SYSTEM_PROMPT))],
                         JObj [(''text'', JStr (user_prompt rt raw ctx previous_turns))]])]]),
                   (''generationConfig'', JObj
                     [(''temperature'', JFloat 0.2),
                      (''topP'', JFloat 0.8),
                      (''topK'', JInt 40),
                      (''maxOutputTokens'', JInt 2048),
                      (''responseMimeType'', JStr ''application/json''),
                      (''responseSchema'', get_json_schema)])]) of
           Inl e \<Rightarrow> Inr (create_fallback_response raw
                      (if e = TimeoutException then ''API timeout'' else str_exc rt e))
         | Inr resp \<Rightarrow>
             (case read_response rt raw resp of
                Inr d \<Rightarrow> Inr d
              | Inl e \<Rightarrow> Inr (create_fallback_response raw
                           (if e = TimeoutException then ''API timeout'' else str_exc rt e))))) \<and>
   (client_connected s \<and> py_strip t \<noteq> [] \<longrightarrow>
      (\<exists>result.
         process_transcript rt env t (current_mode s) None None = Inr result \<and>
         process_with_gemini rt env s t delivered1 delivered2 =
           snd (safe_send
                  (snd (safe_send s delivered1
                     (JObj [(''type'', JStr ''processing''),
                            (''message'', JStr ''Processing with Gemini...'')])))
                  delivered2 (gemini_result_message result t))))"
proof -
  have a: "current_mode (initial_session done_so_far) = BALANCED"
    by (simp add: initial_session_def)
  have b: "receive_from_client_body rt s (Received (Text c), sent) =
        (Continue,
         s\<lparr>current_mode :=
              (if map_of cd ''mode'' = Some (JStr ''strict'') then STRICT else BALANCED)\<rparr>)"
    if "loads rt c = Some (JObj cd)" "dict_get cd ''type'' JNull = JStr ''set_mode''"
    using that by (rule client_body_set_mode)
  have c: "(system_prompt mode = STRICT_SYSTEM_PROMPT \<longleftrightarrow> mode = STRICT) \<and>
           (system_prompt mode = BALANCED_SYSTEM_PROMPT \<longleftrightarrow> mode = BALANCED)"
    using prompts_differ by (cases mode) (auto simp: system_prompt_def)
  have f: "(first_instruction (request_payload (system_prompt mode) up)
              = Some (JStr STRICT_SYSTEM_PROMPT) \<longleftrightarrow> mode = STRICT) \<and>
           (first_instruction (request_payload (system_prompt mode) up)
              = Some (JStr BALANCED_SYSTEM_PROMPT) \<longleftrightarrow> mode = BALANCED)"
    using c by (simp add: first_instruction_payload)
  note d = process_transcript_request [of env key rt raw mode ctx previous_turns]
  have e: "\<exists>result.
         process_transcript rt env t (current_mode s) None None = Inr result \<and>
         process_with_gemini rt env s t delivered1 delivered2 =
           snd (safe_send
                  (snd (safe_send s delivered1
                     (JObj [(''type'', JStr ''processing''),
                            (''message'', JStr ''Processing with Gemini...'')])))
                  delivered2 (gemini_result_message result t))"
    if "client_connected s" "py_strip t \<noteq> []"
  proof -
    from process_transcript_returns [of rt env t "current_mode s" None None]
    obtain result where r: "process_transcript rt env t (current_mode s) None None = Inr result"
      by blast
    with that show ?thesis
      by (simp add: process_with_gemini_def safe_send_eq)
  qed
  from a b c f d e show ?thesis by blast
qed

text \<open>
  The mode "strict" sets the strict mode, the mode "STRICT" the balanced one. A service
  that tells the two templates apart answers the strict mode with 418 and the balanced
  mode with 503, also for a task of a session in the strict mode.
\<close>

theorem mode_selects_template_witness:
  "receive_from_client_body example_runtime live_session (Received (Text strict_text), True)
     = (Continue, live_session\<lparr>current_mode := STRICT\<rparr>) \<and>
   receive_from_client_body example_runtime (live_session\<lparr>current_mode := STRICT\<rparr>)
       (Received (Text upper_text), True)
     = (Continue, live_session\<lparr>current_mode := BALANCED\<rparr>) \<and>
   process_transcript example_runtime probe_env ''book a flight tomorrow'' STRICT None None
     = Inr (create_fallback_response ''book a flight tomorrow'' ''API error: 418'') \<and>
   process_transcript example_runtime probe_env ''book a flight tomorrow'' BALANCED None None
     = Inr (create_fallback_response ''book a flight tomorrow'' ''API error: 503'') \<and>
   process_with_gemini example_runtime probe_env (live_session\<lparr>current_mode := STRICT\<rparr>)
       ''book a flight tomorrow'' True True
     = live_session\<lparr>current_mode := STRICT, trace :=
         [ProviderConnect, ClientSend connected_message True,
          ClientSend (JObj [(''type'', JStr ''processing''),
                            (''message'', JStr ''Processing with Gemini...'')]) True,
          ClientSend (gemini_result_message
                        (create_fallback_response ''book a flight tomorrow'' ''API error: 418'')
                        ''book a flight tomorrow'') True]\<rparr>"
proof -
  have n: "py_strip ''book a flight tomorrow'' \<noteq> []"
    by code_simp
  have k: "gemini_api probe_env = Some ''key''" "''key'' \<noteq> []"
    by (simp_all add: probe_env_def)
  have i: "str_int 418 = ''418''" "str_int 503 = ''503''"
    by (simp_all add: str_int_def str_nat.simps)
  note strict = mode_selects_template [where rt = example_runtime and c = strict_text
      and cd = "[(''type'', JStr ''set_mode''), (''mode'', JStr ''strict'')]"
      and s = "live_session" and sent = True and mode = STRICT and env = probe_env
      and key = "''key''" and raw = "''book a flight tomorrow''" and ctx = None
      and previous_turns = None]
  note upper = mode_selects_template [where rt = example_runtime and c = upper_text
      and cd = "[(''type'', JStr ''set_mode''), (''mode'', JStr ''STRICT'')]"
      and s = "live_session\<lparr>current_mode := STRICT\<rparr>" and sent = True and mode = BALANCED
      and env = probe_env and key = "''key''" and raw = "''book a flight tomorrow''"
      and ctx = None and previous_turns = None and t = "''book a flight tomorrow''"
      and ?delivered1.0 = True and ?delivered2.0 = True]
  have ps: "process_transcript example_runtime probe_env ''book a flight tomorrow'' STRICT None None
     = Inr (create_fallback_response ''book a flight tomorrow'' ''API error: 418'')"
    using strict k prompts_differ
    by (simp add: probe_env_def first_instruction_def read_response_def i)
  have pb: "process_transcript example_runtime probe_env ''book a flight tomorrow'' BALANCED None None
     = Inr (create_fallback_response ''book a flight tomorrow'' ''API error: 503'')"
    using upper k prompts_differ
    by (simp add: probe_env_def first_instruction_def read_response_def i)
  have m1: "receive_from_client_body example_runtime live_session
              (Received (Text strict_text), True)
            = (Continue, live_session\<lparr>current_mode := STRICT\<rparr>)"
    using strict by (simp add: example_loads dict_get_def)
  have m2: "receive_from_client_body example_runtime (live_session\<lparr>current_mode := STRICT\<rparr>)
              (Received (Text upper_text), True)
            = (Continue, live_session\<lparr>current_mode := BALANCED\<rparr>)"
    using upper by (simp add: example_loads dict_get_def)
  have task: "process_with_gemini example_runtime probe_env
                (live_session\<lparr>current_mode := STRICT\<rparr>) ''book a flight tomorrow'' True True
     = live_session\<lparr>current_mode := STRICT, trace :=
         [ProviderConnect, ClientSend connected_message True,
          ClientSend (JObj [(''type'', JStr ''processing''),
                            (''message'', JStr ''Processing with Gemini...'')]) True,
          ClientSend (gemini_result_message
                        (create_fallback_response ''book a flight tomorrow'' ''API error: 418'')
                        ''book a flight tomorrow'') True]\<rparr>"
    using upper n ps
    by (simp add: live_session_fields safe_send_eq live_session_def initial_session_def)
  from m1 m2 ps pb task show ?thesis by blast
qed


section \<open>The start of a session\<close>

lemma websocket_transcribe_no_key:
  assumes "key = None \<or> key = Some []"
  shows "websocket_transcribe rt key delivered connect events =
           ClientSend (error_message ''ElevenLabs API key not configured'') delivered
             # (if delivered then [ClientClose] else [])"
  using assms by (auto simp: websocket_transcribe_def)

text \<open>
  Claim C7. When the credential of the provider is missing (unset or empty), the session
  attempts no connection to the provider, and its one write to the client is the error
  message "ElevenLabs API key not configured". With that message delivered, the session
  sends it, closes the client connection and ends: these two are all its actions.
\<close>

theorem missing_credential:
  assumes "key = None \<or> key = Some []"
  shows "ProviderConnect \<notin> set (websocket_transcribe rt key delivered connect events) \<and>
         filter is_client_send (websocket_transcribe rt key delivered connect events) =
           [ClientSend (error_message ''ElevenLabs API key not configured'') delivered] \<and>
         (delivered \<longrightarrow>
            websocket_transcribe rt key delivered connect events =
              [ClientSend (error_message ''ElevenLabs API key not configured'') True,
               ClientClose]) \<and>
         error_message ''ElevenLabs API key not configured'' = JObj
           [(''type'', JStr ''error''),
            (''message'', JStr ''ElevenLabs API key not configured'')]"
  by (simp add: websocket_transcribe_no_key [OF assms] error_message_def)

text \<open>The credential is unset, or empty, and the write of the error message succeeds.\<close>

theorem missing_credential_witness:
  "websocket_transcribe example_runtime None True Connected later_events =
     [ClientSend (error_message ''ElevenLabs API key not configured'') True, ClientClose] \<and>
   websocket_transcribe example_runtime (Some []) True Connected later_events =
     [ClientSend (error_message ''ElevenLabs API key not configured'') True, ClientClose]"
  using missing_credential [where key = None and rt = example_runtime and delivered = True
      and connect = Connected and events = later_events]
    missing_credential [where key = "Some []" and rt = example_runtime and delivered = True
      and connect = Connected and events = later_events]
  by simp

section \<open>Audio frames and the stop message\<close>

lemma frames_forwarded:
  assumes "client_loop g" and "\<not> should_stop (sess g)" and "client_connected (sess g)"
  shows "foldl (step rt) g (map (\<lambda>b. ClientReceive (Received (Bytes b)) True) frames) =
           g\<lparr>sess := (sess g)\<lparr>trace := trace (sess g)
                @ map (\<lambda>b. ProviderSend (chunk_message b) True) frames\<rparr>\<rparr>"
  using assms
proof (induction frames arbitrary: g)
  case Nil
  then show ?case by simp
next
  case (Cons b frames)
  let ?g1 = "g\<lparr>sess := (sess g)\<lparr>trace := trace (sess g) @ [ProviderSend (chunk_message b) True]\<rparr>\<rparr>"
  have s1: "step rt g (ClientReceive (Received (Bytes b)) True) = ?g1"
    using Cons.prems by (simp add: client_body_bytes elevenlabs_send_def)
  have "foldl (step rt) ?g1 (map (\<lambda>b. ClientReceive (Received (Bytes b)) True) frames) =
          ?g1\<lparr>sess := (sess ?g1)\<lparr>trace := trace (sess ?g1)
                @ map (\<lambda>b. ProviderSend (chunk_message b) True) frames\<rparr>\<rparr>"
    using Cons.prems by (intro Cons.IH) simp_all
  with s1 show ?case by simp
qed

text \<open>
  Claim C8. While the client loop waits for a frame with neither flag set and the
  provider accepts the writes: binary frames followed by a \<^verbatim>\<open>stop\<close> control message are
  forwarded as audio chunk messages with the base64 text of each frame, in the order
  received, then the commit message is sent, and nothing else changes: the stop flag
  stays unset, the client stays connected and both loops keep running.
\<close>

theorem frames_then_commit:
  assumes "client_loop g" and "\<not> should_stop (sess g)" and "client_connected (sess g)"
    and "loads rt c = Some (JObj cd)" and "dict_get cd ''type'' JNull = JStr ''stop''"
  shows "foldl (step rt) g
           (map (\<lambda>b. ClientReceive (Received (Bytes b)) True) frames
              @ [ClientReceive (Received (Text c)) True]) =
           g\<lparr>sess := (sess g)\<lparr>trace := trace (sess g)
                @ map (\<lambda>b. ProviderSend (chunk_message b) True) frames
                @ [ProviderSend commit_msg True]\<rparr>\<rparr> \<and>
         chunk_message b = JObj
           [(''message_type'', JStr ''input_audio_chunk''),
            (''audio_base_64'', JStr (b64encode b))] \<and>
         commit_msg = JObj
           [(''message_type'', JStr ''input_audio_chunk''),
            (''audio_base_64'', JStr []),
            (''commit'', JBool True)] \<and>
         client_loop (foldl (step rt) g
           (map (\<lambda>b. ClientReceive (Received (Bytes b)) True) frames
              @ [ClientReceive (Received (Text c)) True])) \<and>
         \<not> should_stop (sess (foldl (step rt) g
           (map (\<lambda>b. ClientReceive (Received (Bytes b)) True) frames
              @ [ClientReceive (Received (Text c)) True]))) \<and>
         client_connected (sess (foldl (step rt) g
           (map (\<lambda>b. ClientReceive (Received (Bytes b)) True) frames
              @ [ClientReceive (Received (Text c)) True])))"
  using assms
  by (simp add: frames_forwarded client_body_stop elevenlabs_send_def chunk_message_def
      commit_msg_def)

text \<open>The frames "Man" and "Ma", then the stop message.\<close>

theorem frames_then_commit_witness:
  "foldl (step example_runtime) (start live_session)
     [ClientReceive (Received (Bytes [0x4D, 0x61, 0x6E])) True,
      ClientReceive (Received (Bytes [0x4D, 0x61])) True,
      ClientReceive (Received (Text stop_text)) True]
   = \<lparr>sess = live_session\<lparr>trace :=
          [ProviderConnect, ClientSend connected_message True,
           ProviderSend (JObj [(''message_type'', JStr ''input_audio_chunk''),
                               (''audio_base_64'', JStr ''TWFu'')]) True,
           ProviderSend (JObj [(''message_type'', JStr ''input_audio_chunk''),
                               (''audio_base_64'', JStr ''TWE='')]) True,
           ProviderSend (JObj [(''message_type'', JStr ''input_audio_chunk''),
                               (''audio_base_64'', JStr []),
                               (''commit'', JBool True)]) True]\<rparr>,
      provider_loop = True, client_loop = True, finished = []\<rparr>"
proof -
  have ty: "dict_get [(''type'', JStr ''stop'')] ''type'' JNull = JStr ''stop''"
    by (simp add: dict_get_def)
  have g: "client_loop (start live_session)" "\<not> should_stop (sess (start live_session))"
    "client_connected (sess (start live_session))"
    by (simp_all add: start_def live_session_fields)
  from frames_then_commit [OF g example_loads(1) ty, of "[[0x4D, 0x61, 0x6E], [0x4D, 0x61]]"]
  show ?thesis
    by (simp add: start_def live_session_fields chunk_message_def commit_msg_def b64_char_def)
qed

end
